theory Spec2Isabelle
  imports Main
begin

section \<open>Strings as the gateway sees them\<close>

text \<open>
  Node decodes header values as Latin-1, one code unit per byte, so a header value is a
  list of 8-bit characters. The helpers below are the parts of the JavaScript string
  library that \<^verbatim>\<open>server.ts\<close> uses, restricted to code units below 256.
\<close>

definition isDigit :: "char \<Rightarrow> bool" where
  "isDigit c \<longleftrightarrow> c \<in> set ''0123456789''"

definition digitVal :: "char \<Rightarrow> nat" where
  "digitVal c = of_char c - 48"

text \<open>The class \<^verbatim>\<open>\s\<close> of a regular expression, which is also what
  \<^verbatim>\<open>String.prototype.trim\<close> strips: TAB, LF, VT, FF, CR, SPACE and NBSP.\<close>

definition isSpace :: "char \<Rightarrow> bool" where
  "isSpace c \<longleftrightarrow> of_char c \<in> {9::nat, 10, 11, 12, 13, 32, 160}"

text \<open>The characters that \<^verbatim>\<open>.\<close> does not match (no \<^verbatim>\<open>s\<close> flag): LF and CR.\<close>

definition isLineTerminator :: "char \<Rightarrow> bool" where
  "isLineTerminator c \<longleftrightarrow> of_char c \<in> {10::nat, 13}"

definition lowerChar :: "char \<Rightarrow> char" where
  "lowerChar c = (if 65 \<le> (of_char c :: nat) \<and> (of_char c :: nat) \<le> 90
                  then char_of ((of_char c :: nat) + 32) else c)"

text \<open>\<^verbatim>\<open>toLowerCase\<close> on the letters A to Z. The source only compares the result with
  the ASCII word \<^verbatim>\<open>authorization\<close>, which no other code unit lowers into.\<close>

definition toLowerCase :: "string \<Rightarrow> string" where
  "toLowerCase s = map lowerChar s"

definition trim :: "string \<Rightarrow> string" where
  "trim s = rev (dropWhile isSpace (rev (dropWhile isSpace s)))"

text \<open>\<^verbatim>\<open>s.substring(0, n)\<close>\<close>

definition substring0 :: "nat \<Rightarrow> string \<Rightarrow> string" where
  "substring0 n s = take n s"

text \<open>\<^verbatim>\<open>Number.parseInt(ds, 10)\<close> on a string of decimal digits. The result is read as an
  array index only; a value too large for a double to hold exactly is beyond every
  array length, so the exact natural number decides the same lookups.\<close>

definition parseInt10 :: "string \<Rightarrow> nat" where
  "parseInt10 ds = foldl (\<lambda>acc c. acc * 10 + digitVal c) 0 ds"

section \<open>Shard router\<close>

text \<open>The match of \<^verbatim>\<open>/^shard-(\d+)$/\<close>: the captured digits, or no match.\<close>

definition match_shard :: "string \<Rightarrow> string option" where
  "match_shard shardId =
     (if take 6 shardId = ''shard-'' \<and> drop 6 shardId \<noteq> [] \<and> list_all isDigit (drop 6 shardId)
      then Some (drop 6 shardId) else None)"

definition shardIndexFromId :: "string \<Rightarrow> nat option" where
  "shardIndexFromId shardId =
     (case match_shard shardId of None \<Rightarrow> None | Some m1 \<Rightarrow> Some (parseInt10 m1))"

text \<open>\<^verbatim>\<open>endpoints[idx] ?? null\<close>: an index past the end reads \<^verbatim>\<open>undefined\<close>, which
  \<^verbatim>\<open>??\<close> turns into \<^verbatim>\<open>null\<close>; an empty string is returned as it is.\<close>

definition pickShardEndpoint :: "string \<Rightarrow> string list \<Rightarrow> string option" where
  "pickShardEndpoint shardId endpoints =
     (case shardIndexFromId shardId of
        None \<Rightarrow> None
      | Some idx \<Rightarrow> (if idx < length endpoints then Some (endpoints ! idx) else None))"

section \<open>Bearer token extraction\<close>

text \<open>A header value of Node's \<^verbatim>\<open>IncomingHttpHeaders\<close>: \<^verbatim>\<open>string | string[]\<close>; a missing
  header is \<^verbatim>\<open>undefined\<close>, here \<open>None\<close>. A header object is an association list in
  key order; \<^verbatim>\<open>Object.keys\<close> lists the keys.\<close>

datatype hval = Str string | Arr "string list"

type_synonym headers = "(string \<times> hval) list"

definition Object_keys :: "headers \<Rightarrow> string list" where
  "Object_keys hs = map fst hs"

text \<open>JavaScript truthiness of a header value: the empty string is falsy, every array
  (also the empty one) is truthy.\<close>

fun truthy :: "hval option \<Rightarrow> bool" where
  "truthy None = False"
| "truthy (Some (Str s)) = (s \<noteq> [])"
| "truthy (Some (Arr a)) = True"

definition getAuthHeader :: "headers \<Rightarrow> hval option" where
  "getAuthHeader hs =
     (if truthy (map_of hs ''authorization'') then map_of hs ''authorization''
      else (case find (\<lambda>key. toLowerCase key = ''authorization'') (Object_keys hs) of
              Some authKey \<Rightarrow> map_of hs authKey
            | None \<Rightarrow> None))"

text \<open>
  The match of \<^verbatim>\<open>/^[Bb]earer\s+(.+)$/\<close>, returning capture group 1.
  \<open>bearer_rest\<close> consumes \<^verbatim>\<open>^[Bb]earer\<close>. \<open>first_match j r\<close> is the backtracking of
  the greedy \<^verbatim>\<open>\s+\<close>: it lets \<^verbatim>\<open>\s+\<close> take \<open>j\<close> characters, then \<open>j - 1\<close>, down to one,
  and stops at the first split where \<^verbatim>\<open>(.+)$\<close> matches the rest, that is where the rest
  is not empty and holds no line terminator.
\<close>

definition bearer_rest :: "string \<Rightarrow> string option" where
  "bearer_rest h =
     (case h of
        [] \<Rightarrow> None
      | c # cs \<Rightarrow> (if (c = CHR ''B'' \<or> c = CHR ''b'') \<and> take 5 cs = ''earer''
                   then Some (drop 5 cs) else None))"

fun first_match :: "nat \<Rightarrow> string \<Rightarrow> string option" where
  "first_match 0 r = None"
| "first_match (Suc j) r =
     (let cap = drop (Suc j) r
      in if cap \<noteq> [] \<and> \<not> list_ex isLineTerminator cap then Some cap else first_match j r)"

definition match_bearer :: "string \<Rightarrow> string option" where
  "match_bearer h =
     (case bearer_rest h of
        None \<Rightarrow> None
      | Some r \<Rightarrow> first_match (length (takeWhile isSpace r)) r)"

text \<open>The result is \<^verbatim>\<open>string | null\<close>. It can be the empty string: \<^verbatim>\<open>"Bearer  "\<close>
  matches with a blank captured, which \<^verbatim>\<open>trim\<close> empties.\<close>

definition getBearerToken :: "hval option \<Rightarrow> string option" where
  "getBearerToken authHeader =
     (let h = (case authHeader of
                 None \<Rightarrow> None
               | Some (Str s) \<Rightarrow> Some s
               | Some (Arr a) \<Rightarrow> (case a of [] \<Rightarrow> None | x # _ \<Rightarrow> Some x))
      in case h of
           None \<Rightarrow> None
         | Some hs \<Rightarrow>
             if hs = [] then None
             else (case match_bearer hs of
                     Some m1 \<Rightarrow> (if m1 \<noteq> [] then Some (trim m1)
                                 else (let trimmed = trim hs in if trimmed = [] then None else Some trimmed))
                   | None \<Rightarrow> (let trimmed = trim hs in if trimmed = [] then None else Some trimmed)))"

section \<open>Authentication cache\<close>

record CachedAuth =
  teamId :: string
  assignedShard :: "string option"
  expiresAt :: int

text \<open>What \<^verbatim>\<open>resolveIngestionToken\<close> returns for a known token. The function lives in
  \<^verbatim>\<open>controllers/ingestionAuth\<close>; the gateway takes it as it is, so the model takes it as
  a parameter \<open>string \<Rightarrow> Resolved option\<close>, \<open>None\<close> for \<^verbatim>\<open>null\<close>.\<close>

record Resolved =
  r_teamId :: string
  r_assignedShard :: "string option"
  tokenHash :: string
  tokenId :: string

text \<open>The module-level \<^verbatim>\<open>authCache\<close>, and a trace of the two calls that leave the
  module: the tokens handed to the resolver and the ids handed to
  \<^verbatim>\<open>markIngestionTokenUsed\<close>.\<close>

record AuthState =
  authCache :: "string \<rightharpoonup> CachedAuth"
  resolverCalls :: "string list"
  markedUsed :: "string list"

definition storeAuth :: "Resolved \<Rightarrow> int \<Rightarrow> AuthState \<Rightarrow> CachedAuth option \<times> AuthState" where
  "storeAuth resolved now st =
     (let result = \<lparr>teamId = r_teamId resolved, assignedShard = r_assignedShard resolved,
                    expiresAt = now + 60000\<rparr>
      in (Some result,
          st\<lparr>authCache := (authCache st)(tokenHash resolved \<mapsto> result),
             markedUsed := markedUsed st @ [tokenId resolved]\<rparr>))"

text \<open>\<open>now\<close> is \<^verbatim>\<open>Date.now()\<close>, read after the resolver has answered; \<open>st\<close> is the state
  at that moment. The resolver is awaited first, on every call: the cache is keyed by
  the hash that only the resolver's answer carries.\<close>

definition authenticateToken ::
  "(string \<Rightarrow> Resolved option) \<Rightarrow> string \<Rightarrow> int \<Rightarrow> AuthState \<Rightarrow> CachedAuth option \<times> AuthState" where
  "authenticateToken resolveIngestionToken token now st =
     (let resolved = resolveIngestionToken token;
          st1 = st\<lparr>resolverCalls := resolverCalls st @ [token]\<rparr>
      in case resolved of
           None \<Rightarrow> (None, st1)
         | Some r \<Rightarrow>
             if tokenHash r = [] then (None, st1)
             else (case authCache st1 (tokenHash r) of
                     Some cached \<Rightarrow>
                       if expiresAt cached > now then (Some cached, st1)
                       else storeAuth r now st1
                   | None \<Rightarrow> storeAuth r now st1))"

section \<open>Log entries\<close>

text \<open>A call \<^verbatim>\<open>logger.level({fields}, message)\<close> is kept as the level, the fields in
  order and the message. A field is a plain value or an object of plain values, which
  is as deep as the gateway nests them.\<close>

datatype level = LInfo | LWarn | LError

datatype jsatom = AStr string | ANum int | ABool bool | AUndef | ANull | AList "string list" | AErr string

datatype jsval = V jsatom | Obj "(string \<times> jsatom) list"

type_synonym logEntry = "level \<times> (string \<times> jsval) list \<times> string"

fun hatom :: "hval option \<Rightarrow> jsatom" where
  "hatom None = AUndef"
| "hatom (Some (Str s)) = AStr s"
| "hatom (Some (Arr a)) = AList a"

fun optStr :: "string option \<Rightarrow> jsatom" where
  "optStr None = AUndef"
| "optStr (Some s) = AStr s"

section \<open>Request-response gateway\<close>

record HttpReq =
  req_method :: string
  req_url :: string
  req_headers :: headers
  req_body :: "string list"
  remoteAddress :: string
  remotePort :: int

text \<open>The fields of a WHATWG \<^verbatim>\<open>URL\<close> object that the handler reads.\<close>

record Url =
  protocol :: string
  hostname :: string
  port :: string
  host :: string
  pathname :: string
  search :: string

text \<open>What the handler takes from outside the module: the resolver, the configured
  endpoint lists, the two forms of \<^verbatim>\<open>new URL\<close> (\<open>None\<close> when the constructor throws),
  the request id made from the clock and the random generator, the id of the inbound
  stream, \<^verbatim>\<open>Date.now()\<close> as read
  inside \<^verbatim>\<open>authenticateToken\<close>, and the duration logged by the wrapped
  \<^verbatim>\<open>writeHead\<close>.\<close>

record Env =
  resolveIngestionToken :: "string \<Rightarrow> Resolved option"
  INGESTION_SHARD_HTTP_ENDPOINTS :: "string list"
  INGESTION_SHARD_GRPC_ENDPOINTS :: "string list"
  newURL :: "string \<Rightarrow> Url option"
  newURL2 :: "string \<Rightarrow> Url \<Rightarrow> Url option"
  requestId :: string
  streamId :: int
  dateNow :: int
  durationMs :: int

text \<open>The options of the \<^verbatim>\<open>http.request\<close> call and the chunks piped into it.\<close>

record Outbound =
  o_protocol :: string
  o_hostname :: string
  o_port :: string
  o_method :: string
  o_path :: string
  o_headers :: headers
  o_body :: "string list"

text \<open>How the handler leaves a request: it writes a status and a body itself, or it
  hands the request to a shard, whose answer is relayed.\<close>

datatype HttpResult = Reply nat string | Proxy Outbound

record HttpOut =
  result :: HttpResult
  logs :: "logEntry list"

text \<open>Assignment to a property of an object: an existing key keeps its place.\<close>

fun objSet :: "string \<Rightarrow> hval \<Rightarrow> headers \<Rightarrow> headers" where
  "objSet k v [] = [(k, v)]"
| "objSet k v ((k', v') # hs) = (if k' = k then (k, v) # hs else (k', v') # objSet k v hs)"

text \<open>The byte counter and the first-chunk sample that every data listener keeps. The
  sample is logged undecoded: \<^verbatim>\<open>toString('utf8', 0, 512)\<close> is the identity on ASCII.\<close>

definition bytesReceived :: "string list \<Rightarrow> nat" where
  "bytesReceived chunks = sum_list (map length chunks)"

definition firstChunk :: "string list \<Rightarrow> string option" where
  "firstChunk chunks =
     (case filter (\<lambda>chunk. length chunk > 0) chunks of
        [] \<Rightarrow> None
      | chunk # _ \<Rightarrow> Some (take (min (length chunk) 1024) chunk))"

definition dataSample :: "string list \<Rightarrow> jsatom" where
  "dataSample chunks =
     (case firstChunk chunks of
        Some fc \<Rightarrow> AStr (take (min (length fc) 512) fc)
      | None \<Rightarrow> ANull)"

definition tokenPrefixOf :: "hval option \<Rightarrow> string" where
  "tokenPrefixOf authHeader =
     (if truthy authHeader
      then (case authHeader of Some (Str s) \<Rightarrow> substring0 20 s @ ''...'' | _ \<Rightarrow> ''multiple'')
      else ''none'')"

definition incomingRequestLog :: "Env \<Rightarrow> HttpReq \<Rightarrow> logEntry" where
  "incomingRequestLog env req =
     (LInfo,
      [(''requestId'', V (AStr (requestId env))),
       (''method'', V (AStr (req_method req))),
       (''url'', V (AStr (req_url req))),
       (''headers'', Obj
          [(''content-type'', hatom (map_of (req_headers req) ''content-type'')),
           (''content-length'', hatom (map_of (req_headers req) ''content-length'')),
           (''user-agent'', hatom (map_of (req_headers req) ''user-agent'')),
           (''host'', hatom (map_of (req_headers req) ''host'')),
           (''authorization'', AStr (tokenPrefixOf (getAuthHeader (req_headers req))))]),
       (''headerKeys'', V (AList (take 10 (Object_keys (req_headers req))))),
       (''authHeaderKeysFound'',
          V (AList (filter (\<lambda>key. toLowerCase key = ''authorization'') (Object_keys (req_headers req))))),
       (''remoteAddress'', V (AStr (remoteAddress req))),
       (''remotePort'', V (ANum (remotePort req)))],
      ''OTLP HTTP gateway: incoming request'')"

text \<open>The sink of a rejected request: the body is read to its end and counted, the
  sample is logged when there were bytes, then the status is written. \<open>extra\<close> is the
  \<^verbatim>\<open>tokenPrefix\<close> field of the invalid-token branch.\<close>

definition sinkEnd :: "Env \<Rightarrow> HttpReq \<Rightarrow> (string \<times> jsval) list \<Rightarrow> logEntry list" where
  "sinkEnd env req extra =
     (if bytesReceived (req_body req) > 0
      then [(LWarn,
             [(''requestId'', V (AStr (requestId env)))] @ extra @
             [(''bytesReceived'', V (ANum (int (bytesReceived (req_body req))))),
              (''dataSample'', V (dataSample (req_body req))),
              (''contentType'', V (hatom (map_of (req_headers req) ''content-type'')))],
             ''OTLP HTTP gateway: request data received (auth failed)'')]
      else [])"

definition shardLogFields :: "Env \<Rightarrow> CachedAuth \<Rightarrow> (string \<times> jsval) list" where
  "shardLogFields env auth =
     [(''requestId'', V (AStr (requestId env))),
      (''teamId'', V (AStr (teamId auth))),
      (''assignedShard'', V (optStr (assignedShard auth)))]"

text \<open>\<^verbatim>\<open>auth.assignedShard || 'shard-0'\<close>\<close>

definition shardOrDefault :: "CachedAuth \<Rightarrow> string" where
  "shardOrDefault auth =
     (case assignedShard auth of
        Some s \<Rightarrow> (if s \<noteq> [] then s else ''shard-0'')
      | None \<Rightarrow> ''shard-0'')"

text \<open>The \<^verbatim>\<open>catch\<close> block once \<^verbatim>\<open>res.writeHead\<close> has been wrapped: the wrapper logs the
  status before it is written.\<close>

definition caughtAfterWrap :: "Env \<Rightarrow> CachedAuth \<Rightarrow> string \<Rightarrow> logEntry list \<Rightarrow> HttpOut" where
  "caughtAfterWrap env auth target lg =
     \<lparr>result = Reply 500 ''error'',
      logs = lg @
        [(LError, [(''err'', V (AErr ''ERR_INVALID_URL'')), (''requestId'', V (AStr (requestId env)))],
          ''OTLP HTTP gateway error''),
         (LInfo, shardLogFields env auth @
            [(''targetEndpoint'', V (AStr target)),
             (''statusCode'', V (ANum 500)),
             (''durationMs'', V (ANum (durationMs env)))],
          ''OTLP HTTP gateway: response sent'')]\<rparr>"

definition flushLog :: "Env \<Rightarrow> HttpReq \<Rightarrow> CachedAuth \<Rightarrow> logEntry list" where
  "flushLog env req auth =
     (if bytesReceived (req_body req) > 0
      then [(LInfo,
             [(''requestId'', V (AStr (requestId env))),
              (''bytesReceived'', V (ANum (int (bytesReceived (req_body req))))),
              (''dataSample'', V (dataSample (req_body req))),
              (''contentType'', V (hatom (map_of (req_headers req) ''content-type'')))] @
             (if teamId auth \<noteq> [] then [(''teamId'', V (AStr (teamId auth)))] else []),
             ''OTLP HTTP gateway: request data received'')]
      else [])"

text \<open>The handler from the shard choice on, for an authenticated request. The message
  of the entry for a missing endpoint is cut after its first sentence. What follows the
  \<^verbatim>\<open>http.request\<close> call (the answer of the shard relayed, or 502 when the connection
  fails) is not part of the result.\<close>

definition routeHttp :: "Env \<Rightarrow> HttpReq \<Rightarrow> CachedAuth \<Rightarrow> logEntry list \<Rightarrow> HttpOut" where
  "routeHttp env req auth lg0 =
     (let lg1 = lg0 @
            [(LInfo, shardLogFields env auth, ''OTLP HTTP gateway: authenticated request''),
             (LInfo, shardLogFields env auth, ''OTLP HTTP gateway: authenticated request'')]
      in case pickShardEndpoint (shardOrDefault auth) (INGESTION_SHARD_HTTP_ENDPOINTS env) of
           None \<Rightarrow> \<lparr>result = Reply 503 ''no shard endpoint'',
                     logs = lg1 @
                       [(LError, shardLogFields env auth @
                           [(''configuredEndpoints'', V (AList (INGESTION_SHARD_HTTP_ENDPOINTS env))),
                            (''endpointCount'', V (ANum (int (length (INGESTION_SHARD_HTTP_ENDPOINTS env)))))],
                         ''OTLP HTTP gateway: no shard endpoint available'')]\<rparr>
         | Some target \<Rightarrow>
             if target = [] then
               \<lparr>result = Reply 503 ''no shard endpoint'',
                logs = lg1 @
                  [(LError, shardLogFields env auth @
                      [(''configuredEndpoints'', V (AList (INGESTION_SHARD_HTTP_ENDPOINTS env))),
                       (''endpointCount'', V (ANum (int (length (INGESTION_SHARD_HTTP_ENDPOINTS env)))))],
                    ''OTLP HTTP gateway: no shard endpoint available'')]\<rparr>
             else
               (let lg2 = lg1 @
                      [(LInfo, shardLogFields env auth @ [(''targetEndpoint'', V (AStr target))],
                        ''OTLP HTTP gateway: routing to shard'')]
                in case newURL env target of
                     None \<Rightarrow> caughtAfterWrap env auth target lg2
                   | Some base \<Rightarrow>
                       (case newURL2 env (if req_url req \<noteq> [] then req_url req else ''/'') base of
                          None \<Rightarrow> caughtAfterWrap env auth target lg2
                        | Some targetUrl \<Rightarrow>
                            \<lparr>result = Proxy
                               \<lparr>o_protocol = protocol targetUrl,
                                o_hostname = hostname targetUrl,
                                o_port = port targetUrl,
                                o_method = req_method req,
                                o_path = pathname targetUrl @ search targetUrl,
                                o_headers = objSet ''x-hdx-team-id'' (Str (teamId auth))
                                              (objSet ''host'' (Str (host targetUrl)) (req_headers req)),
                                o_body = req_body req\<rparr>,
                             logs = lg2 @ flushLog env req auth\<rparr>)))"

definition missingToken :: "Env \<Rightarrow> HttpReq \<Rightarrow> logEntry list \<Rightarrow> HttpOut" where
  "missingToken env req lg0 =
     \<lparr>result = Reply 401 ''missing token'',
      logs = lg0 @
        [(LWarn, [(''requestId'', V (AStr (requestId env)))], ''OTLP HTTP gateway: missing token'')] @
        sinkEnd env req []\<rparr>"

definition invalidToken :: "Env \<Rightarrow> HttpReq \<Rightarrow> string \<Rightarrow> logEntry list \<Rightarrow> HttpOut" where
  "invalidToken env req token lg0 =
     \<lparr>result = Reply 401 ''invalid token'',
      logs = lg0 @
        [(LWarn,
          [(''requestId'', V (AStr (requestId env))),
           (''tokenPrefix'', V (AStr (substring0 10 token @ ''...'')))],
          ''OTLP HTTP gateway: invalid token'')] @
        sinkEnd env req [(''tokenPrefix'', V (AStr (substring0 10 token @ ''...'')))]\<rparr>"

text \<open>The request listener of \<^verbatim>\<open>httpServer\<close>. \<^verbatim>\<open>if (!token)\<close> takes \<^verbatim>\<open>null\<close> and the
  empty string alike. The body of the request is taken whole, as the chunks that arrive
  before its end.\<close>

definition httpHandler :: "Env \<Rightarrow> HttpReq \<Rightarrow> AuthState \<Rightarrow> HttpOut \<times> AuthState" where
  "httpHandler env req st =
     (let authHeader = getAuthHeader (req_headers req);
          lg0 = [incomingRequestLog env req]
      in case getBearerToken authHeader of
           None \<Rightarrow> (missingToken env req lg0, st)
         | Some token \<Rightarrow>
             if token = [] then (missingToken env req lg0, st)
             else (case authenticateToken (resolveIngestionToken env) token (dateNow env) st of
                     (None, st') \<Rightarrow> (invalidToken env req token lg0, st')
                   | (Some auth, st') \<Rightarrow> (routeHttp env req auth lg0, st')))"

text \<open>The bytes of a request that reach a shard.\<close>

fun forwarded :: "HttpResult \<Rightarrow> string list" where
  "forwarded (Reply status body) = []"
| "forwarded (Proxy ob) = o_body ob"

section \<open>Streaming gateway: one inbound stream\<close>

text \<open>What \<^verbatim>\<open>stream.respond\<close> is given: a bare \<^verbatim>\<open>:status\<close>, or the headers of the shard's
  response.\<close>

datatype respHeaders = Status nat | Relayed headers

text \<open>Which data listener the handler has put on the inbound stream: none yet, the
  counter of a rejected stream, or the pipe through \<^verbatim>\<open>trackingTransform\<close> into the
  outbound stream.\<close>

datatype mode = Unread | Counting | Bridging

text \<open>Who calls \<^verbatim>\<open>stream.end\<close> on the inbound stream: \<^verbatim>\<open>safeEnd\<close>, or the pipe
  \<^verbatim>\<open>proxyStream.pipe(stream)\<close> that the listener sets up.\<close>

datatype ender = ByGuard | ByPipe

text \<open>
  The state of one run of the \<^verbatim>\<open>'stream'\<close> listener. \<open>destroyed\<close> and \<open>closed\<close> are the
  flags Node keeps on the inbound stream, \<open>proxyDestroyed\<close> and \<open>proxyClosed\<close> those of
  the outbound stream; the fields from \<open>streamResponded\<close> to \<open>dataReceivedFromProxy\<close>
  are the listener's local variables. The rest is what the run does to the outside:
  \<open>responses\<close> holds the argument of every \<^verbatim>\<open>stream.respond\<close> that returned, \<open>ends\<close>
  lists the calls of \<^verbatim>\<open>stream.end\<close> that returned, \<open>requestHeaders\<close> is the argument of
  \<^verbatim>\<open>session.request\<close>, \<open>toProxy\<close> and \<open>toClient\<close> are the chunks the two pipes have
  passed on, \<open>slog\<close> the log entries. The fields \<open>bytesRecv\<close>, \<open>firstChunkSeen\<close> and
  \<open>s_teamId\<close> are the listener's \<^verbatim>\<open>bytesReceived\<close>, \<^verbatim>\<open>firstChunk\<close> and \<^verbatim>\<open>teamId\<close>.
\<close>

record Stream =
  destroyed :: bool
  closed :: bool
  proxyDestroyed :: bool
  proxyClosed :: bool
  streamResponded :: bool
  streamEnded :: bool
  authFailed :: bool
  s_teamId :: "string option"
  bytesRecv :: nat
  chunkCount :: nat
  firstChunkSeen :: "string option"
  responseReceived :: bool
  dataSentToProxy :: bool
  dataReceivedFromProxy :: bool
  listening :: mode
  responses :: "respHeaders list"
  ends :: "ender list"
  requestHeaders :: "headers option"
  toProxy :: "string list"
  toClient :: "string list"
  slog :: "logEntry list"

definition freshStream :: Stream where
  "freshStream =
     \<lparr>destroyed = False, closed = False, proxyDestroyed = False, proxyClosed = False,
      streamResponded = False, streamEnded = False, authFailed = False, s_teamId = None,
      bytesRecv = 0, chunkCount = 0, firstChunkSeen = None,
      responseReceived = False, dataSentToProxy = False, dataReceivedFromProxy = False,
      listening = Unread, responses = [], ends = [], requestHeaders = None,
      toProxy = [], toClient = [], slog = []\<rparr>"

definition addLog :: "logEntry \<Rightarrow> Stream \<Rightarrow> Stream" where
  "addLog e st = st\<lparr>slog := slog st @ [e]\<rparr>"

text \<open>The two guards. \<open>throws\<close> says whether the call of \<^verbatim>\<open>stream.respond\<close> (of
  \<^verbatim>\<open>stream.end\<close>) inside the \<^verbatim>\<open>try\<close> raises; the flag is set only when it returns.\<close>

definition safeRespond :: "Env \<Rightarrow> respHeaders \<Rightarrow> bool \<Rightarrow> Stream \<Rightarrow> Stream" where
  "safeRespond env hs throws st =
     (if \<not> streamResponded st \<and> \<not> destroyed st \<and> \<not> closed st then
        (if throws then
           addLog (LWarn, [(''err'', V (AErr ''respond'')), (''requestId'', V (AStr (requestId env)))],
                   ''OTLP gRPC gateway: failed to respond to stream'') st
         else st\<lparr>responses := responses st @ [hs], streamResponded := True\<rparr>)
      else st)"

definition safeEnd :: "bool \<Rightarrow> Stream \<Rightarrow> Stream" where
  "safeEnd throws st =
     (if \<not> streamEnded st \<and> \<not> destroyed st then
        (if throws then st else st\<lparr>ends := ends st @ [ByGuard], streamEnded := True\<rparr>)
      else st)"

text \<open>\<^verbatim>\<open>safeRespond({ ':status': n }); safeEnd();\<close>\<close>

definition finalize :: "Env \<Rightarrow> nat \<Rightarrow> bool \<Rightarrow> bool \<Rightarrow> Stream \<Rightarrow> Stream" where
  "finalize env n respondThrows endThrows st =
     safeEnd endThrows (safeRespond env (Status n) respondThrows st)"

definition incomingStreamLog :: "Env \<Rightarrow> headers \<Rightarrow> logEntry" where
  "incomingStreamLog env hdrs =
     (LInfo,
      [(''requestId'', V (AStr (requestId env))),
       (''method'', V (hatom (map_of hdrs '':method''))),
       (''path'', V (hatom (map_of hdrs '':path''))),
       (''headers'', Obj
          [(''content-type'', hatom (map_of hdrs ''content-type'')),
           (''user-agent'', hatom (map_of hdrs ''user-agent'')),
           (''grpc-timeout'', hatom (map_of hdrs ''grpc-timeout'')),
           (''authorization'', AStr (tokenPrefixOf (getAuthHeader hdrs)))]),
       (''headerKeys'', V (AList (take 10 (Object_keys hdrs)))),
       (''authHeaderKeysFound'',
          V (AList (filter (\<lambda>key. toLowerCase key = ''authorization'') (Object_keys hdrs)))),
       (''streamId'', V (ANum (streamId env)))],
      ''OTLP gRPC gateway: incoming stream'')"

text \<open>Where the listener stands when it stops or awaits a session.\<close>

datatype decision = Done | Route CachedAuth string

definition rejectMissing :: "Env \<Rightarrow> bool \<Rightarrow> bool \<Rightarrow> Stream \<Rightarrow> Stream" where
  "rejectMissing env respondThrows endThrows st =
     finalize env 401 respondThrows endThrows
       ((addLog (LWarn, [(''requestId'', V (AStr (requestId env)))], ''OTLP gRPC gateway: missing token'')
          (st\<lparr>authFailed := True\<rparr>))\<lparr>listening := Counting\<rparr>)"

definition rejectInvalid :: "Env \<Rightarrow> string \<Rightarrow> bool \<Rightarrow> bool \<Rightarrow> Stream \<Rightarrow> Stream" where
  "rejectInvalid env token respondThrows endThrows st =
     finalize env 401 respondThrows endThrows
       ((addLog (LWarn,
                 [(''requestId'', V (AStr (requestId env))),
                  (''tokenPrefix'', V (AStr (substring0 10 token @ ''...'')))],
                 ''OTLP gRPC gateway: invalid token'')
          (st\<lparr>authFailed := True\<rparr>))\<lparr>listening := Counting\<rparr>)"

definition noEndpoint :: "Env \<Rightarrow> CachedAuth \<Rightarrow> bool \<Rightarrow> bool \<Rightarrow> Stream \<Rightarrow> Stream" where
  "noEndpoint env auth respondThrows endThrows st =
     finalize env 503 respondThrows endThrows
       (addLog (LError, shardLogFields env auth @
                  [(''configuredEndpoints'', V (AList (INGESTION_SHARD_GRPC_ENDPOINTS env))),
                   (''endpointCount'', V (ANum (int (length (INGESTION_SHARD_GRPC_ENDPOINTS env)))))],
                ''OTLP gRPC gateway: no shard endpoint available'') st)"

definition routeStream :: "Env \<Rightarrow> CachedAuth \<Rightarrow> bool \<Rightarrow> bool \<Rightarrow> Stream \<Rightarrow> decision \<times> Stream" where
  "routeStream env auth respondThrows endThrows st0 =
     (let st1 = addLog (LInfo, shardLogFields env auth, ''OTLP gRPC gateway: authenticated stream'')
                  (st0\<lparr>s_teamId := Some (teamId auth)\<rparr>)
      in case pickShardEndpoint (shardOrDefault auth) (INGESTION_SHARD_GRPC_ENDPOINTS env) of
           None \<Rightarrow> (Done, noEndpoint env auth respondThrows endThrows st1)
         | Some target \<Rightarrow>
             if target = [] then (Done, noEndpoint env auth respondThrows endThrows st1)
             else (Route auth target,
                   addLog (LInfo, shardLogFields env auth @ [(''targetEndpoint'', V (AStr target))],
                           ''OTLP gRPC gateway: routing to shard'') st1))"

text \<open>
  The \<^verbatim>\<open>'stream'\<close> listener of \<^verbatim>\<open>grpcServer\<close>, from its start to the call of
  \<^verbatim>\<open>getClientSession\<close>. The listener reads the flags of the stream only inside
  \<^verbatim>\<open>safeRespond\<close> and \<^verbatim>\<open>safeEnd\<close>, which run back to back, so \<open>st\<close> carries the flags as
  they are at that moment.
\<close>

definition streamHandler ::
  "Env \<Rightarrow> headers \<Rightarrow> bool \<Rightarrow> bool \<Rightarrow> AuthState \<Rightarrow> Stream \<Rightarrow> decision \<times> Stream \<times> AuthState" where
  "streamHandler env hdrs respondThrows endThrows ast st =
     (let authHeader = getAuthHeader hdrs;
          st0 = addLog (incomingStreamLog env hdrs) st
      in case getBearerToken authHeader of
           None \<Rightarrow> (Done, rejectMissing env respondThrows endThrows st0, ast)
         | Some token \<Rightarrow>
             if token = [] then (Done, rejectMissing env respondThrows endThrows st0, ast)
             else (case authenticateToken (resolveIngestionToken env) token (dateNow env) ast of
                     (None, ast') \<Rightarrow> (Done, rejectInvalid env token respondThrows endThrows st0, ast')
                   | (Some auth, ast') \<Rightarrow>
                       (case routeStream env auth respondThrows endThrows st0 of
                          (d, st1) \<Rightarrow> (d, st1, ast'))))"

section \<open>Connection pool\<close>

text \<open>How the promise of \<^verbatim>\<open>getClientSession\<close> settles: resolved with a session, or
  rejected with an error (its code or message).\<close>

datatype settle = Resolved nat | Rejected string

text \<open>
  One session made by \<^verbatim>\<open>http2.connect\<close>, with the closure of the call that made it:
  \<open>c_url\<close> is \<^verbatim>\<open>targetBaseUrl\<close>; \<open>s_connecting\<close>, \<open>s_closed\<close> and \<open>s_destroyed\<close> are the
  flags Node keeps on the session; \<open>timeoutArmed\<close> says that the five-second timer is
  neither cleared nor fired; \<open>promise\<close> is the settlement of the promise, \<open>None\<close> while
  it is pending.
\<close>

record Conn =
  c_url :: string
  s_connecting :: bool
  s_closed :: bool
  s_destroyed :: bool
  timeoutArmed :: bool
  promise :: "settle option"

text \<open>
  The two maps of the gateway, \<^verbatim>\<open>sessions\<close> and \<^verbatim>\<open>sessionPingIntervals\<close>, over the
  sessions made so far: a session is named by its position in \<open>conns\<close>, and the ping
  interval of a session by the session. \<open>activeIntervals\<close> holds the intervals set and not
  cleared.
\<close>

record Pool =
  sessions :: "string \<rightharpoonup> nat"
  sessionPingIntervals :: "string \<rightharpoonup> nat"
  conns :: "Conn list"
  activeIntervals :: "nat set"
  plog :: "logEntry list"

definition emptyPool :: Pool where
  "emptyPool = \<lparr>sessions = Map.empty, sessionPingIntervals = Map.empty, conns = [],
                activeIntervals = {}, plog = []\<rparr>"

text \<open>The cleanup that follows every \<^verbatim>\<open>sessions.delete\<close>: the interval registered for
  the endpoint, if any, is cleared and forgotten.\<close>

definition clearPing :: "string \<Rightarrow> Pool \<Rightarrow> Pool" where
  "clearPing url p =
     (case sessionPingIntervals p url of
        Some pingInterval \<Rightarrow>
          p\<lparr>activeIntervals := activeIntervals p - {pingInterval},
            sessionPingIntervals := (sessionPingIntervals p)(url := None)\<rparr>
      | None \<Rightarrow> p)"

definition dropSession :: "string \<Rightarrow> Pool \<Rightarrow> Pool" where
  "dropSession url p = clearPing url (p\<lparr>sessions := (sessions p)(url := None)\<rparr>)"

text \<open>What a call of \<^verbatim>\<open>getClientSession\<close> leaves its caller with: a promise already
  resolved, a promise waiting on a session found in the pool, or a promise waiting on a
  session the call has just made.\<close>

datatype acquire = Ready nat | Awaiting nat | Connecting nat

text \<open>\<^verbatim>\<open>http2.connect(targetBaseUrl)\<close> with the timer and the listeners of the new
  session. Nothing is written to \<^verbatim>\<open>sessions\<close> here: that is done by the \<^verbatim>\<open>'connect'\<close>
  listener.\<close>

definition connectNew :: "string \<Rightarrow> Pool \<Rightarrow> acquire \<times> Pool" where
  "connectNew url p =
     (Connecting (length (conns p)),
      p\<lparr>conns := conns p @
           [\<lparr>c_url = url, s_connecting = True, s_closed = False, s_destroyed = False,
             timeoutArmed = True, promise = None\<rparr>]\<rparr>)"

text \<open>The executor of the promise, which runs within the call. The inner test of the
  flags repeats the outer one, as in the source.\<close>

definition getClientSession :: "string \<Rightarrow> Pool \<Rightarrow> acquire \<times> Pool" where
  "getClientSession url p =
     (case sessions p url of
        None \<Rightarrow> connectNew url p
      | Some sid \<Rightarrow>
          (let existing = conns p ! sid
           in if \<not> s_closed existing \<and> \<not> s_destroyed existing then
                (if s_destroyed existing \<or> s_closed existing then
                   connectNew url (dropSession url p)
                 else if s_connecting existing then (Awaiting sid, p)
                 else (Ready sid, p))
              else connectNew url p))"

text \<open>\<^verbatim>\<open>resolve\<close> and \<^verbatim>\<open>reject\<close>: a promise settles once.\<close>

definition settlePromise :: "nat \<Rightarrow> settle \<Rightarrow> Pool \<Rightarrow> Pool" where
  "settlePromise sid v p =
     (if promise (conns p ! sid) = None
      then p\<lparr>conns := (conns p)[sid := (conns p ! sid)\<lparr>promise := Some v\<rparr>]\<rparr>
      else p)"

definition clearTimeout :: "nat \<Rightarrow> Pool \<Rightarrow> Pool" where
  "clearTimeout sid p = p\<lparr>conns := (conns p)[sid := (conns p ! sid)\<lparr>timeoutArmed := False\<rparr>]\<rparr>"

text \<open>The \<^verbatim>\<open>'connect'\<close> listener of a new session.\<close>

definition onConnect :: "nat \<Rightarrow> Pool \<Rightarrow> Pool" where
  "onConnect sid p0 =
     (let p = clearTimeout sid p0; s = conns p ! sid; url = c_url s
      in if s_destroyed s \<or> s_closed s then
           settlePromise sid (Rejected ''Session closed immediately after connect'') p
         else
           settlePromise sid (Resolved sid)
             (p\<lparr>activeIntervals := activeIntervals p \<union> {sid},
               sessions := (sessions p)(url \<mapsto> sid),
               sessionPingIntervals := (sessionPingIntervals p)(url \<mapsto> sid)\<rparr>))"

text \<open>The session connects: the runtime clears \<^verbatim>\<open>connecting\<close> and emits \<^verbatim>\<open>'connect'\<close>.\<close>

definition emitConnect :: "nat \<Rightarrow> Pool \<Rightarrow> Pool" where
  "emitConnect sid p =
     onConnect sid (p\<lparr>conns := (conns p)[sid := (conns p ! sid)\<lparr>s_connecting := False\<rparr>]\<rparr>)"

text \<open>The \<^verbatim>\<open>'error'\<close> listener of a session; \<open>code\<close> is \<^verbatim>\<open>err.code\<close>.\<close>

definition onSessionError :: "string \<Rightarrow> nat \<Rightarrow> Pool \<Rightarrow> Pool" where
  "onSessionError code sid p0 =
     (let p = clearTimeout sid p0; s = conns p ! sid; url = c_url s;
          isConnectionReset = (code = ''ECONNRESET'');
          isDuringConnection = s_connecting s
      in if isDuringConnection then
           settlePromise sid (Rejected code)
             (dropSession url
                (p\<lparr>plog := plog p @
                     [(LError, [(''err'', V (AErr code)), (''targetBaseUrl'', V (AStr url))],
                       ''OTLP gRPC gateway: HTTP/2 connection failed'')]\<rparr>))
         else
           dropSession url
             (if \<not> isConnectionReset then
                p\<lparr>plog := plog p @
                    [(LError, [(''err'', V (AErr code)), (''targetBaseUrl'', V (AStr url))],
                      ''OTLP gRPC gateway: HTTP/2 session error'')]\<rparr>
              else p))"

text \<open>The \<^verbatim>\<open>'close'\<close> listener of a session.\<close>

definition onSessionClose :: "nat \<Rightarrow> Pool \<Rightarrow> Pool" where
  "onSessionClose sid p0 =
     (let p = clearTimeout sid p0 in dropSession (c_url (conns p ! sid)) p)"

text \<open>The callback of the connection timer, which runs only while the timer is armed;
  \<^verbatim>\<open>s.destroy()\<close> sets the flag of the session.\<close>

definition onConnectTimeout :: "nat \<Rightarrow> Pool \<Rightarrow> Pool" where
  "onConnectTimeout sid p =
     (if timeoutArmed (conns p ! sid) then
        settlePromise sid (Rejected ''Connection timeout'')
          (p\<lparr>conns := (conns p)[sid := (conns p ! sid)\<lparr>s_destroyed := True, timeoutArmed := False\<rparr>]\<rparr>)
      else p)"

text \<open>\<open>n\<close> calls for one endpoint with no event of a session between them: the calls
  of streams that arrive before the first connection is up.\<close>

fun acquireMany :: "nat \<Rightarrow> string \<Rightarrow> Pool \<Rightarrow> acquire list \<times> Pool" where
  "acquireMany 0 url p = ([], p)"
| "acquireMany (Suc n) url p =
     (case getClientSession url p of
        (a, p') \<Rightarrow> (case acquireMany n url p' of (as, p'') \<Rightarrow> (a # as, p'')))"

section \<open>Streaming gateway: acquiring the session\<close>

text \<open>Where the listener stands after an \<^verbatim>\<open>await getClientSession(target)\<close>.\<close>

datatype sessionStep = Failed | Retry acquire | Acquired nat

definition sessionLogFields :: "Env \<Rightarrow> CachedAuth \<Rightarrow> string \<Rightarrow> (string \<times> jsval) list" where
  "sessionLogFields env auth target =
     shardLogFields env auth @ [(''targetEndpoint'', V (AStr target))]"

text \<open>
  The first \<^verbatim>\<open>await\<close> and what follows it within the outer \<^verbatim>\<open>try\<close>. A rejected promise
  lands in the outer \<^verbatim>\<open>catch\<close>; a session that is destroyed, closed or connecting is
  dropped from the pool and asked for again.
\<close>

definition afterSession ::
  "Env \<Rightarrow> CachedAuth \<Rightarrow> string \<Rightarrow> settle \<Rightarrow> bool \<Rightarrow> bool \<Rightarrow> Pool \<Rightarrow> Stream \<Rightarrow> sessionStep \<times> Pool \<times> Stream" where
  "afterSession env auth target outcome respondThrows endThrows p st =
     (case outcome of
        Rejected err \<Rightarrow>
          (Failed, p,
           finalize env 503 respondThrows endThrows
             (addLog (LError, (''err'', V (AErr err)) # sessionLogFields env auth target,
                      ''OTLP gRPC gateway: failed to get HTTP/2 session'') st))
      | Resolved sid \<Rightarrow>
          (let session = conns p ! sid
           in if s_destroyed session \<or> s_closed session \<or> s_connecting session then
                (case getClientSession target (dropSession target p) of
                   (a, p') \<Rightarrow>
                     (Retry a, p',
                      addLog (LWarn, sessionLogFields env auth target @
                                [(''destroyed'', V (ABool (s_destroyed session))),
                                 (''closed'', V (ABool (s_closed session))),
                                 (''connecting'', V (ABool (s_connecting session)))],
                              ''OTLP gRPC gateway: session invalid after connect, retrying'') st))
              else (Acquired sid, p, st)))"

text \<open>The second \<^verbatim>\<open>await\<close>, in the inner \<^verbatim>\<open>try\<close>.\<close>

definition afterRetry ::
  "Env \<Rightarrow> CachedAuth \<Rightarrow> string \<Rightarrow> settle \<Rightarrow> bool \<Rightarrow> bool \<Rightarrow> Stream \<Rightarrow> sessionStep \<times> Stream" where
  "afterRetry env auth target outcome respondThrows endThrows st =
     (case outcome of
        Rejected err \<Rightarrow>
          (Failed,
           finalize env 503 respondThrows endThrows
             (addLog (LError, (''err'', V (AErr err)) # sessionLogFields env auth target,
                      ''OTLP gRPC gateway: failed to get HTTP/2 session after retry'') st))
      | Resolved sid \<Rightarrow> (Acquired sid, st))"

section \<open>Streaming gateway: bridging\<close>

text \<open>The \<^verbatim>\<open>catch\<close> of the listener.\<close>

definition caught :: "Env \<Rightarrow> string \<Rightarrow> bool \<Rightarrow> bool \<Rightarrow> Stream \<Rightarrow> Stream" where
  "caught env err respondThrows endThrows st =
     finalize env 500 respondThrows endThrows
       (addLog (LError, [(''err'', V (AErr err)), (''requestId'', V (AStr (requestId env)))],
                ''OTLP gRPC gateway error'') st)"

text \<open>
  From the last test of the session to the two pipes. \<open>requestThrows\<close> says whether
  \<^verbatim>\<open>session.request\<close> raises. The listeners of the outbound stream and the pipes exist
  from here on, which \<open>listening = Bridging\<close> records.
\<close>

definition startBridge ::
  "Env \<Rightarrow> headers \<Rightarrow> CachedAuth \<Rightarrow> string \<Rightarrow> nat \<Rightarrow> bool \<Rightarrow> bool \<Rightarrow> bool \<Rightarrow> Pool \<Rightarrow> Stream \<Rightarrow> Stream" where
  "startBridge env hdrs auth target sid requestThrows respondThrows endThrows p st =
     (let session = conns p ! sid
      in if s_destroyed session \<or> s_closed session then
           finalize env 503 respondThrows endThrows
             (addLog (LError, sessionLogFields env auth target,
                      ''OTLP gRPC gateway: HTTP/2 session not available'') st)
         else
           (case newURL env target of
              None \<Rightarrow> caught env ''ERR_INVALID_URL'' respondThrows endThrows st
            | Some u \<Rightarrow>
                (let reqHeaders = objSet ''x-hdx-team-id'' (Str (teamId auth))
                                    (objSet '':authority'' (Str (host u)) hdrs);
                     st1 = addLog
                       (LInfo, sessionLogFields env auth target @
                          [(''method'', V (hatom (map_of hdrs '':method''))),
                           (''path'', V (hatom (map_of hdrs '':path''))),
                           (''sessionState'', Obj
                              [(''destroyed'', ABool (s_destroyed session)),
                               (''closed'', ABool (s_closed session)),
                               (''connecting'', ABool (s_connecting session))]),
                           (''headersSent'',
                              V (AList (filter (\<lambda>k. take 1 k \<noteq> '':'') (Object_keys reqHeaders))))],
                        ''OTLP gRPC gateway: creating proxy stream'') st
                 in if requestThrows then caught env ''request'' respondThrows endThrows st1
                    else st1\<lparr>requestHeaders := Some reqHeaders, listening := Bridging\<rparr>)))"

text \<open>The counters that every data listener of the inbound stream keeps.\<close>

definition countChunk :: "string \<Rightarrow> Stream \<Rightarrow> Stream" where
  "countChunk chunk st =
     st\<lparr>bytesRecv := bytesRecv st + length chunk,
        chunkCount := chunkCount st + 1,
        firstChunkSeen :=
          (if firstChunkSeen st = None \<and> length chunk > 0
           then Some (take (min (length chunk) 1024) chunk) else firstChunkSeen st)\<rparr>"

text \<open>
  The two pipes belong to the runtime. What is taken from it: a chunk written to the
  outbound stream after \<^verbatim>\<open>proxyStream.destroy()\<close> is not sent, and a chunk written to the
  inbound stream after it is destroyed or ended is not sent. A pipe also ends its
  destination when its source ends: when the outbound stream emits \<^verbatim>\<open>'end'\<close>, the pipe
  \<^verbatim>\<open>proxyStream.pipe(stream)\<close> calls \<^verbatim>\<open>stream.end()\<close>. That call goes through no guard and
  sets no variable of the listener. A pipe is undone when its destination closes.
\<close>

definition pipeToProxy :: "string \<Rightarrow> Stream \<Rightarrow> Stream" where
  "pipeToProxy chunk st = (if proxyDestroyed st then st else st\<lparr>toProxy := toProxy st @ [chunk]\<rparr>)"

definition pipeToClient :: "string \<Rightarrow> Stream \<Rightarrow> Stream" where
  "pipeToClient chunk st =
     (if destroyed st \<or> ends st \<noteq> [] then st else st\<lparr>toClient := toClient st @ [chunk]\<rparr>)"

definition pipeEnd :: "Stream \<Rightarrow> Stream" where
  "pipeEnd st = st\<lparr>ends := ends st @ [ByPipe]\<rparr>"

text \<open>\<^verbatim>\<open>trackingTransform.transform\<close>, then the pipe into the outbound stream.\<close>

definition transform :: "Env \<Rightarrow> CachedAuth \<Rightarrow> string \<Rightarrow> string \<Rightarrow> Stream \<Rightarrow> Stream" where
  "transform env auth target chunk st =
     (let st1 = countChunk chunk st;
          st2 = (if \<not> dataSentToProxy st1 then
                   addLog (LInfo,
                           [(''requestId'', V (AStr (requestId env))),
                            (''teamId'', V (AStr (teamId auth))),
                            (''targetEndpoint'', V (AStr target)),
                            (''timeSinceStart'', V (ANum (durationMs env))),
                            (''chunkSize'', V (ANum (int (length chunk))))],
                           ''OTLP gRPC gateway: first data sent to proxy'')
                     (st1\<lparr>dataSentToProxy := True\<rparr>)
                 else st1)
      in pipeToProxy chunk st2)"

definition dataLogFields :: "Env \<Rightarrow> headers \<Rightarrow> Stream \<Rightarrow> (string \<times> jsval) list" where
  "dataLogFields env hdrs st =
     [(''requestId'', V (AStr (requestId env))),
      (''bytesReceived'', V (ANum (int (bytesRecv st)))),
      (''chunkCount'', V (ANum (int (chunkCount st)))),
      (''dataSample'',
         V (case firstChunkSeen st of
              Some fc \<Rightarrow> AStr (take (min (length fc) 512) fc)
            | None \<Rightarrow> ANull)),
      (''contentType'', V (hatom (map_of hdrs ''content-type'')))] @
     (case s_teamId st of
        Some t \<Rightarrow> (if t \<noteq> [] then [(''teamId'', V (AStr t))] else [])
      | None \<Rightarrow> [])"

text \<open>\<^verbatim>\<open>trackingTransform.flush\<close>\<close>

definition flush :: "Env \<Rightarrow> headers \<Rightarrow> Stream \<Rightarrow> Stream" where
  "flush env hdrs st =
     (if bytesRecv st > 0 then
        (if authFailed st
         then addLog (LWarn, dataLogFields env hdrs st, ''OTLP gRPC gateway: stream data received (auth failed)'') st
         else addLog (LInfo, dataLogFields env hdrs st, ''OTLP gRPC gateway: stream data received'') st)
      else st)"

text \<open>The listeners of the inbound stream.\<close>

definition onStreamError :: "Env \<Rightarrow> string \<Rightarrow> Stream \<Rightarrow> Stream" where
  "onStreamError env err st =
     addLog (LWarn,
             [(''err'', V (AErr err)), (''requestId'', V (AStr (requestId env))),
              (''teamId'', V (case s_teamId st of Some t \<Rightarrow> AStr t | None \<Rightarrow> ANull))],
             ''OTLP gRPC gateway: stream error'') st"

definition onStreamClose :: "Env \<Rightarrow> headers \<Rightarrow> Stream \<Rightarrow> Stream" where
  "onStreamClose env hdrs st =
     (if bytesRecv st > 0 then
        (if authFailed st
         then addLog (LWarn, dataLogFields env hdrs st, ''OTLP gRPC gateway: stream closed (auth failed)'') st
         else addLog (LInfo, dataLogFields env hdrs st, ''OTLP gRPC gateway: stream closed'') st)
      else st)"

text \<open>\<^verbatim>\<open>proxyStream.destroy()\<close> sets the flag of the outbound stream.\<close>

definition onStreamAborted :: "Env \<Rightarrow> Stream \<Rightarrow> Stream" where
  "onStreamAborted env st =
     (addLog (LWarn,
              [(''requestId'', V (AStr (requestId env))),
               (''teamId'', V (case s_teamId st of Some t \<Rightarrow> AStr t | None \<Rightarrow> ANull)),
               (''durationMs'', V (ANum (durationMs env)))],
              ''OTLP gRPC gateway: stream aborted by client'') st)\<lparr>proxyDestroyed := True\<rparr>"

text \<open>The listeners of the outbound stream.\<close>

definition onProxyData :: "Env \<Rightarrow> CachedAuth \<Rightarrow> string \<Rightarrow> Stream \<Rightarrow> Stream" where
  "onProxyData env auth target st =
     (if \<not> dataReceivedFromProxy st then
        addLog (LInfo,
                [(''requestId'', V (AStr (requestId env))),
                 (''teamId'', V (AStr (teamId auth))),
                 (''targetEndpoint'', V (AStr target)),
                 (''timeSinceStart'', V (ANum (durationMs env)))],
                ''OTLP gRPC gateway: first data received from proxy'')
          (st\<lparr>dataReceivedFromProxy := True\<rparr>)
      else st)"

definition onProxyResponse ::
  "Env \<Rightarrow> CachedAuth \<Rightarrow> string \<Rightarrow> headers \<Rightarrow> bool \<Rightarrow> Stream \<Rightarrow> Stream" where
  "onProxyResponse env auth target proxyHeaders respondThrows st =
     safeRespond env (Relayed proxyHeaders) respondThrows
       (addLog (LInfo, sessionLogFields env auth target @
                  [(''statusCode'', V (hatom (map_of proxyHeaders '':status''))),
                   (''durationMs'', V (ANum (durationMs env))),
                   (''responseHeaders'', V (AList (Object_keys proxyHeaders)))],
                ''OTLP gRPC gateway: response received'')
          (st\<lparr>responseReceived := True\<rparr>))"

text \<open>The field \<^verbatim>\<open>sessionState\<close> of the entry below, which is read from the session, is
  left out.\<close>

definition onProxyError ::
  "Env \<Rightarrow> CachedAuth \<Rightarrow> string \<Rightarrow> string \<Rightarrow> bool \<Rightarrow> bool \<Rightarrow> Stream \<Rightarrow> Stream" where
  "onProxyError env auth target code respondThrows endThrows st =
     finalize env 502 respondThrows endThrows
       (addLog ((if code = ''ECONNRESET'' then LWarn else LError),
                (''err'', V (AErr code)) # sessionLogFields env auth target @
                  [(''durationMs'', V (ANum (durationMs env))),
                   (''responseReceived'', V (ABool (responseReceived st))),
                   (''dataSentToProxy'', V (ABool (dataSentToProxy st))),
                   (''dataReceivedFromProxy'', V (ABool (dataReceivedFromProxy st))),
                   (''proxyStreamState'', Obj
                      [(''destroyed'', ABool (proxyDestroyed st)),
                       (''closed'', ABool (proxyClosed st))])],
                ''OTLP gRPC gateway: proxy stream error'') st)"

definition onProxyClose :: "Env \<Rightarrow> CachedAuth \<Rightarrow> string \<Rightarrow> bool \<Rightarrow> Stream \<Rightarrow> Stream" where
  "onProxyClose env auth target endThrows st =
     safeEnd endThrows
       (addLog (LInfo,
                [(''requestId'', V (AStr (requestId env))),
                 (''teamId'', V (AStr (teamId auth))),
                 (''targetEndpoint'', V (AStr target)),
                 (''durationMs'', V (ANum (durationMs env))),
                 (''responseReceived'', V (ABool (responseReceived st))),
                 (''dataSentToProxy'', V (ABool (dataSentToProxy st))),
                 (''dataReceivedFromProxy'', V (ABool (dataReceivedFromProxy st)))],
                ''OTLP gRPC gateway: proxy stream closed'') st)"

definition sessionErrorHandler :: "Stream \<Rightarrow> Stream" where
  "sessionErrorHandler st =
     (if \<not> proxyDestroyed st \<and> \<not> proxyClosed st then st\<lparr>proxyDestroyed := True\<rparr> else st)"

text \<open>
  What can happen to a stream once its listener has started. The booleans say whether
  \<^verbatim>\<open>stream.respond\<close> and \<^verbatim>\<open>stream.end\<close> raise in that event.
\<close>

datatype event =
    InboundData string
  | InboundEnd
  | InboundDestroyed
  | InboundAborted
  | InboundError string
  | InboundClose
  | ProxyResponse headers bool
  | ProxyData string
  | ProxyEnd
  | ProxyError string bool bool
  | ProxyClose bool
  | SessionError

text \<open>
  One event. The listeners for \<^verbatim>\<open>'aborted'\<close>, for the outbound stream and for the
  session, and the two pipes, exist only once bridging has started; the listeners for
  \<^verbatim>\<open>'error'\<close> and \<^verbatim>\<open>'close'\<close> of the inbound stream exist from the start. From the
  runtime: the inbound stream can be destroyed at any moment (\<open>InboundDestroyed\<close>); a
  stream that emits \<^verbatim>\<open>'aborted'\<close> or \<^verbatim>\<open>'close'\<close> is already closed and destroyed; a
  destroyed outbound stream delivers no more data and no end. The listener
  \<^verbatim>\<open>sessionErrorHandler\<close> is removed when the outbound stream closes; it has no effect on
  a closed stream, so the removal is not recorded.
\<close>

definition step :: "Env \<Rightarrow> headers \<Rightarrow> CachedAuth \<Rightarrow> string \<Rightarrow> event \<Rightarrow> Stream \<Rightarrow> Stream" where
  "step env hdrs auth target ev st =
     (case ev of
        InboundData chunk \<Rightarrow>
          (case listening st of
             Unread \<Rightarrow> st
           | Counting \<Rightarrow> countChunk chunk st
           | Bridging \<Rightarrow> transform env auth target chunk st)
      | InboundEnd \<Rightarrow> (if listening st = Bridging then flush env hdrs st else st)
      | InboundDestroyed \<Rightarrow> st\<lparr>destroyed := True\<rparr>
      | InboundAborted \<Rightarrow>
          (if listening st = Bridging
           then onStreamAborted env (st\<lparr>closed := True, destroyed := True\<rparr>)
           else st\<lparr>closed := True, destroyed := True\<rparr>)
      | InboundError err \<Rightarrow> onStreamError env err st
      | InboundClose \<Rightarrow> onStreamClose env hdrs (st\<lparr>closed := True, destroyed := True\<rparr>)
      | ProxyResponse proxyHeaders respondThrows \<Rightarrow>
          (if listening st = Bridging
           then onProxyResponse env auth target proxyHeaders respondThrows st else st)
      | ProxyData chunk \<Rightarrow>
          (if listening st = Bridging \<and> \<not> proxyDestroyed st
           then pipeToClient chunk (onProxyData env auth target st) else st)
      | ProxyEnd \<Rightarrow>
          (if listening st = Bridging \<and> \<not> proxyDestroyed st \<and> \<not> closed st then pipeEnd st else st)
      | ProxyError code respondThrows endThrows \<Rightarrow>
          (if listening st = Bridging
           then onProxyError env auth target code respondThrows endThrows st else st)
      | ProxyClose endThrows \<Rightarrow>
          (if listening st = Bridging
           then onProxyClose env auth target endThrows (st\<lparr>proxyClosed := True, proxyDestroyed := True\<rparr>)
           else st)
      | SessionError \<Rightarrow> (if listening st = Bridging then sessionErrorHandler st else st))"

text \<open>What a stream goes through: the parts of its listener, each with what it is
  given at that point, and events in between and after.\<close>

datatype action =
    Handler headers bool bool AuthState
  | AfterSession CachedAuth string settle bool bool Pool
  | AfterRetry CachedAuth string settle bool bool
  | StartBridge headers CachedAuth string nat bool bool bool Pool
  | Event headers CachedAuth string event

definition perform :: "Env \<Rightarrow> action \<Rightarrow> Stream \<Rightarrow> Stream" where
  "perform env act st =
     (case act of
        Handler hdrs respondThrows endThrows ast \<Rightarrow>
          fst (snd (streamHandler env hdrs respondThrows endThrows ast st))
      | AfterSession auth target outcome respondThrows endThrows p \<Rightarrow>
          snd (snd (afterSession env auth target outcome respondThrows endThrows p st))
      | AfterRetry auth target outcome respondThrows endThrows \<Rightarrow>
          snd (afterRetry env auth target outcome respondThrows endThrows st)
      | StartBridge hdrs auth target sid requestThrows respondThrows endThrows p \<Rightarrow>
          startBridge env hdrs auth target sid requestThrows respondThrows endThrows p st
      | Event hdrs auth target ev \<Rightarrow> step env hdrs auth target ev st)"

text \<open>A run is a fold over the actions, the earliest first.\<close>

definition run :: "Env \<Rightarrow> action list \<Rightarrow> Stream \<Rightarrow> Stream" where
  "run env acts st = foldl (\<lambda>s act. perform env act s) st acts"

text \<open>A sequence of events on one stream, the earliest first.\<close>

definition runEvents :: "Env \<Rightarrow> headers \<Rightarrow> CachedAuth \<Rightarrow> string \<Rightarrow> event list \<Rightarrow> Stream \<Rightarrow> Stream" where
  "runEvents env hdrs auth target evs st = foldl (\<lambda>s ev. step env hdrs auth target ev s) st evs"

text \<open>How often the inbound stream has been ended by \<^verbatim>\<open>safeEnd\<close>, and how often by the
  pipe.\<close>

definition guardEnds :: "Stream \<Rightarrow> nat" where
  "guardEnds st = length (filter (\<lambda>e. e = ByGuard) (ends st))"

definition pipeEnds :: "Stream \<Rightarrow> nat" where
  "pipeEnds st = length (filter (\<lambda>e. e = ByPipe) (ends st))"

text \<open>How often the outbound stream emits \<^verbatim>\<open>'end'\<close> in a run.\<close>

fun proxyEndEvents :: "action list \<Rightarrow> nat" where
  "proxyEndEvents [] = 0"
| "proxyEndEvents (Event hdrs auth target ProxyEnd # acts) = Suc (proxyEndEvents acts)"
| "proxyEndEvents (act # acts) = proxyEndEvents acts"

text \<open>The bookkeeping of the two guards: a response has been sent exactly when
  \<open>streamResponded\<close> is set, and \<^verbatim>\<open>safeEnd\<close> has ended the stream exactly when
  \<open>streamEnded\<close> is set.\<close>

definition guarded :: "Stream \<Rightarrow> bool" where
  "guarded st \<longleftrightarrow>
     length (responses st) = (if streamResponded st then 1 else 0) \<and>
     guardEnds st = (if streamEnded st then 1 else 0)"

section \<open>Reading the log\<close>










section \<open>Example inputs\<close>

text \<open>The scenario of the specification: the token \<^verbatim>\<open>abc\<close> belongs to tenant \<^verbatim>\<open>t1\<close> on
  \<^verbatim>\<open>shard-1\<close>, and two endpoints are configured.\<close>

definition exampleResolved :: Resolved where
  "exampleResolved =
     \<lparr>r_teamId = ''t1'', r_assignedShard = Some ''shard-1'', tokenHash = ''hash-abc'', tokenId = ''id-abc''\<rparr>"

definition exampleResolver :: "string \<Rightarrow> Resolved option" where
  "exampleResolver token = (if token = ''abc'' then Some exampleResolved else None)"

definition exampleResolverNoShard :: "string \<Rightarrow> Resolved option" where
  "exampleResolverNoShard token =
     (if token = ''abc'' then Some (exampleResolved\<lparr>r_assignedShard := None\<rparr>) else None)"

definition exampleEndpoints :: "string list" where
  "exampleEndpoints = [''http://h0:9'', ''http://h1:9'']"

text \<open>\<^verbatim>\<open>new URL(input)\<close> on the two endpoints.\<close>

definition exampleURL :: "string \<Rightarrow> Url option" where
  "exampleURL s =
     (if s = ''http://h0:9'' then
        Some \<lparr>protocol = ''http:'', hostname = ''h0'', port = ''9'', host = ''h0:9'', pathname = ''/'', search = []\<rparr>
      else if s = ''http://h1:9'' then
        Some \<lparr>protocol = ''http:'', hostname = ''h1'', port = ''9'', host = ''h1:9'', pathname = ''/'', search = []\<rparr>
      else None)"

text \<open>
  \<^verbatim>\<open>new URL(input, base)\<close> on the three request targets of the examples. The path
  \<^verbatim>\<open>/v1/logs\<close> replaces the path and the query of the base. An input that starts with two
  slashes brings its own host and keeps only the scheme of the base; an input with a
  scheme keeps nothing of the base. The table has no other entry.
\<close>

definition exampleURL2 :: "string \<Rightarrow> Url \<Rightarrow> Url option" where
  "exampleURL2 input base =
     (if input = ''/v1/logs'' then Some (base\<lparr>pathname := ''/v1/logs'', search := []\<rparr>)
      else if input = ''//evil.example/v1/logs'' then
        Some \<lparr>protocol = protocol base, hostname = ''evil.example'', port = [], host = ''evil.example'',
              pathname = ''/v1/logs'', search = []\<rparr>
      else if input = ''http://evil.example/v1/logs'' then
        Some \<lparr>protocol = ''http:'', hostname = ''evil.example'', port = [], host = ''evil.example'',
              pathname = ''/v1/logs'', search = []\<rparr>
      else None)"

definition exampleEnv :: Env where
  "exampleEnv =
     \<lparr>resolveIngestionToken = exampleResolver,
      INGESTION_SHARD_HTTP_ENDPOINTS = exampleEndpoints,
      INGESTION_SHARD_GRPC_ENDPOINTS = exampleEndpoints,
      newURL = exampleURL, newURL2 = exampleURL2,
      requestId = ''r1'', streamId = 1, dateNow = 10, durationMs = 5\<rparr>"

definition exampleEnvNoShard :: Env where
  "exampleEnvNoShard = exampleEnv\<lparr>resolveIngestionToken := exampleResolverNoShard\<rparr>"

definition requestWith :: "headers \<Rightarrow> HttpReq" where
  "requestWith hs =
     \<lparr>req_method = ''POST'', req_url = ''/v1/logs'', req_headers = hs, req_body = [''payload''],
      remoteAddress = ''10.0.0.7'', remotePort = 5000\<rparr>"

definition exampleRequest :: HttpReq where
  "exampleRequest = requestWith [(''content-type'', Str ''application/json''), (''authorization'', Str ''Bearer abc'')]"

text \<open>The same request with a target in network-path form, and in absolute form.\<close>

definition evilRequest :: HttpReq where
  "evilRequest = exampleRequest\<lparr>req_url := ''//evil.example/v1/logs''\<rparr>"

definition absoluteRequest :: HttpReq where
  "absoluteRequest = exampleRequest\<lparr>req_url := ''http://evil.example/v1/logs''\<rparr>"

definition blankRequest :: HttpReq where
  "blankRequest = requestWith [(''authorization'', Str ''  '')]"

definition bareRequest :: HttpReq where
  "bareRequest = requestWith [(''content-type'', Str ''application/json'')]"

definition unknownRequest :: HttpReq where
  "unknownRequest = requestWith [(''authorization'', Str ''Bearer nope'')]"



definition coldState :: AuthState where
  "coldState = \<lparr>authCache = Map.empty, resolverCalls = [], markedUsed = []\<rparr>"

text \<open>The state after the token \<^verbatim>\<open>abc\<close> has been resolved once, at time 10.\<close>

definition warmState :: AuthState where
  "warmState = snd (authenticateToken exampleResolver ''abc'' 10 coldState)"

definition exampleRecord :: CachedAuth where
  "exampleRecord = \<lparr>teamId = ''t1'', assignedShard = Some ''shard-1'', expiresAt = 60010\<rparr>"

text \<open>A pool whose one session, to the second endpoint, is up; and a stream that is
  rejected by no one: it is authenticated, bridged, and then hit by an error of the
  outbound stream, its close, an abort and a second error.\<close>

definition livePool :: Pool where
  "livePool =
     \<lparr>sessions = [''http://h1:9'' \<mapsto> 0], sessionPingIntervals = [''http://h1:9'' \<mapsto> 0],
      conns = [\<lparr>c_url = ''http://h1:9'', s_connecting = False, s_closed = False, s_destroyed = False,
                timeoutArmed = False, promise = Some (Resolved 0)\<rparr>],
      activeIntervals = {0}, plog = []\<rparr>"

definition exampleHeaders :: headers where
  "exampleHeaders = [('':method'', Str ''POST''), ('':path'', Str ''/v1/logs''), (''authorization'', Str ''Bearer abc'')]"

definition stormyRun :: "action list" where
  "stormyRun =
     [Handler exampleHeaders False False coldState,
      StartBridge exampleHeaders exampleRecord ''http://h1:9'' 0 False False False livePool,
      Event exampleHeaders exampleRecord ''http://h1:9'' (InboundData ''payload''),
      Event exampleHeaders exampleRecord ''http://h1:9'' (ProxyError ''ECONNRESET'' False False),
      Event exampleHeaders exampleRecord ''http://h1:9'' (ProxyClose False),
      Event exampleHeaders exampleRecord ''http://h1:9'' InboundAborted,
      Event exampleHeaders exampleRecord ''http://h1:9'' (ProxyError ''ECONNRESET'' False False),
      Event exampleHeaders exampleRecord ''http://h1:9'' InboundClose]"

text \<open>The stream of \<open>stormyRun\<close> once it is bridged and has passed one chunk on.\<close>

definition bridgedStream :: Stream where
  "bridgedStream = run exampleEnv (take 3 stormyRun) freshStream"

text \<open>A call that nothing disturbs: the request is piped to the shard, the shard answers,
  its stream ends and closes, and the inbound stream closes.\<close>

definition ordinaryRun :: "action list" where
  "ordinaryRun =
     [Handler exampleHeaders False False coldState,
      AfterSession exampleRecord ''http://h1:9'' (Resolved 0) False False livePool,
      StartBridge exampleHeaders exampleRecord ''http://h1:9'' 0 False False False livePool,
      Event exampleHeaders exampleRecord ''http://h1:9'' (InboundData ''payload''),
      Event exampleHeaders exampleRecord ''http://h1:9'' InboundEnd,
      Event exampleHeaders exampleRecord ''http://h1:9'' (ProxyResponse [('':status'', Str ''200'')] False),
      Event exampleHeaders exampleRecord ''http://h1:9'' (ProxyData ''ok''),
      Event exampleHeaders exampleRecord ''http://h1:9'' ProxyEnd,
      Event exampleHeaders exampleRecord ''http://h1:9'' (ProxyClose False),
      Event exampleHeaders exampleRecord ''http://h1:9'' InboundClose]"

text \<open>A client that aborts on a bridged stream; one that aborts while the listener waits
  for the session; and an outbound stream that is destroyed, by an error of its session,
  before the shard has answered.\<close>

definition abortWhenBridged :: "action list" where
  "abortWhenBridged =
     [Event exampleHeaders exampleRecord ''http://h1:9'' InboundAborted,
      Event exampleHeaders exampleRecord ''http://h1:9'' (ProxyClose False),
      Event exampleHeaders exampleRecord ''http://h1:9'' InboundClose]"

definition abortWhileWaiting :: "action list" where
  "abortWhileWaiting =
     [Handler exampleHeaders False False coldState,
      Event exampleHeaders exampleRecord ''http://h1:9'' InboundAborted,
      Event exampleHeaders exampleRecord ''http://h1:9'' InboundClose,
      AfterSession exampleRecord ''http://h1:9'' (Resolved 0) False False livePool,
      StartBridge exampleHeaders exampleRecord ''http://h1:9'' 0 False False False livePool]"

definition destroyedUnanswered :: "action list" where
  "destroyedUnanswered =
     [Event exampleHeaders exampleRecord ''http://h1:9'' SessionError,
      Event exampleHeaders exampleRecord ''http://h1:9'' (ProxyClose False)]"

text \<open>The pool while the first session to the second endpoint is being made.\<close>

definition dialingPool :: Pool where
  "dialingPool = snd (getClientSession ''http://h1:9'' emptyPool)"

text \<open>Three calls for the first endpoint on the empty pool, and the pool once the three
  sessions have connected, in the order they were made.\<close>

definition threeDials :: "acquire list \<times> Pool" where
  "threeDials = acquireMany 3 ''http://h0:9'' emptyPool"

definition threeUp :: Pool where
  "threeUp = emitConnect 2 (emitConnect 1 (emitConnect 0 (snd threeDials)))"

section \<open>Properties\<close>

lemma match_shard_Some: "match_shard sid = Some ds \<longleftrightarrow> ds \<noteq> [] \<and> list_all isDigit ds \<and> sid = ''shard-'' @ ds"
proof
  assume "match_shard sid = Some ds"
  then have a: "take 6 sid = ''shard-''" and b: "drop 6 sid = ds" and c: "ds \<noteq> []" and d: "list_all isDigit ds"
    by (auto simp: match_shard_def split: if_splits)
  have "sid = take 6 sid @ drop 6 sid" by simp
  with a b have "sid = ''shard-'' @ ds" by simp
  with c d show "ds \<noteq> [] \<and> list_all isDigit ds \<and> sid = ''shard-'' @ ds" by simp
next
  assume "ds \<noteq> [] \<and> list_all isDigit ds \<and> sid = ''shard-'' @ ds"
  then show "match_shard sid = Some ds" by (simp add: match_shard_def)
qed

lemma match_shard_None: "match_shard sid = None \<longleftrightarrow> \<not> (\<exists>ds. ds \<noteq> [] \<and> list_all isDigit ds \<and> sid = ''shard-'' @ ds)"
proof (cases "match_shard sid")
  case None
  have "\<not> (\<exists>ds. ds \<noteq> [] \<and> list_all isDigit ds \<and> sid = ''shard-'' @ ds)"
  proof
    assume "\<exists>ds. ds \<noteq> [] \<and> list_all isDigit ds \<and> sid = ''shard-'' @ ds"
    then obtain ds where "ds \<noteq> [] \<and> list_all isDigit ds \<and> sid = ''shard-'' @ ds" ..
    then have "match_shard sid = Some ds" by (simp add: match_shard_Some)
    with None show False by simp
  qed
  with None show ?thesis by simp
next
  case (Some ds)
  then have "ds \<noteq> [] \<and> list_all isDigit ds \<and> sid = ''shard-'' @ ds" by (simp add: match_shard_Some)
  then have "\<exists>ds. ds \<noteq> [] \<and> list_all isDigit ds \<and> sid = ''shard-'' @ ds" ..
  with Some show ?thesis by simp
qed

lemma parseInt10_snoc: "parseInt10 (ds @ [d]) = parseInt10 ds * 10 + digitVal d"
  by (simp add: parseInt10_def)

text \<open>Claim C4. The shard router is a total function with no error result: on an identifier
  \<^verbatim>\<open>shard-\<close> followed by one or more decimal digits it returns the endpoint at that index
  when the index is within the list, and \<open>None\<close> when it is not; on every other string
  it returns \<open>None\<close>.\<close>

theorem pickShardEndpoint_routes:
  "(ds \<noteq> [] \<and> list_all isDigit ds \<and> parseInt10 ds < length endpoints
      \<longrightarrow> pickShardEndpoint (''shard-'' @ ds) endpoints = Some (endpoints ! parseInt10 ds))
   \<and> (ds \<noteq> [] \<and> list_all isDigit ds \<and> \<not> parseInt10 ds < length endpoints
      \<longrightarrow> pickShardEndpoint (''shard-'' @ ds) endpoints = None)
   \<and> (\<not> (\<exists>ds'. ds' \<noteq> [] \<and> list_all isDigit ds' \<and> shardId = ''shard-'' @ ds')
      \<longrightarrow> pickShardEndpoint shardId endpoints = None)"
proof (intro conjI impI)
  assume h: "ds \<noteq> [] \<and> list_all isDigit ds \<and> parseInt10 ds < length endpoints"
  then have "match_shard (''shard-'' @ ds) = Some ds" by (simp add: match_shard_Some)
  with h show "pickShardEndpoint (''shard-'' @ ds) endpoints = Some (endpoints ! parseInt10 ds)"
    by (simp add: pickShardEndpoint_def shardIndexFromId_def)
next
  assume h: "ds \<noteq> [] \<and> list_all isDigit ds \<and> \<not> parseInt10 ds < length endpoints"
  then have "match_shard (''shard-'' @ ds) = Some ds" by (simp add: match_shard_Some)
  with h show "pickShardEndpoint (''shard-'' @ ds) endpoints = None"
    by (simp add: pickShardEndpoint_def shardIndexFromId_def)
next
  assume "\<not> (\<exists>ds'. ds' \<noteq> [] \<and> list_all isDigit ds' \<and> shardId = ''shard-'' @ ds')"
  then have "match_shard shardId = None" by (simp add: match_shard_None)
  then show "pickShardEndpoint shardId endpoints = None"
    by (simp add: pickShardEndpoint_def shardIndexFromId_def)
qed

text \<open>The three cases of claim C4 on the endpoint list of the specification.\<close>

theorem pickShardEndpoint_routes_witness:
  "pickShardEndpoint ''shard-1'' [''http://h0:9'', ''http://h1:9''] = Some ''http://h1:9''
   \<and> pickShardEndpoint ''shard-7'' [''http://h0:9'', ''http://h1:9''] = None
   \<and> pickShardEndpoint ''shard-x'' [''http://h0:9'', ''http://h1:9''] = None"
proof -
  have d1: "''1'' \<noteq> [] \<and> list_all isDigit ''1'' \<and> parseInt10 ''1'' < length [''http://h0:9'', ''http://h1:9'']"
    by (simp add: isDigit_def parseInt10_def digitVal_def)
  have d7: "''7'' \<noteq> [] \<and> list_all isDigit ''7'' \<and> \<not> parseInt10 ''7'' < length [''http://h0:9'', ''http://h1:9'']"
    by (simp add: isDigit_def parseInt10_def digitVal_def)
  have nx: "\<not> (\<exists>ds'. ds' \<noteq> [] \<and> list_all isDigit ds' \<and> ''shard-x'' = ''shard-'' @ ds')"
    by (auto simp: isDigit_def)
  have a: "pickShardEndpoint (''shard-'' @ ''1'') [''http://h0:9'', ''http://h1:9''] = Some ([''http://h0:9'', ''http://h1:9''] ! parseInt10 ''1'')"
    using pickShardEndpoint_routes [of "''1''" "[''http://h0:9'', ''http://h1:9'']" "''shard-x''"] d1 by blast
  have b: "pickShardEndpoint (''shard-'' @ ''7'') [''http://h0:9'', ''http://h1:9''] = None"
    using pickShardEndpoint_routes [of "''7''" "[''http://h0:9'', ''http://h1:9'']" "''shard-x''"] d7 by blast
  have c: "pickShardEndpoint ''shard-x'' [''http://h0:9'', ''http://h1:9''] = None"
    using pickShardEndpoint_routes [of "''7''" "[''http://h0:9'', ''http://h1:9'']" "''shard-x''"] nx by blast
  have p1: "parseInt10 ''1'' = 1" by (simp add: parseInt10_def digitVal_def)
  from a b c p1 show ?thesis by simp
qed

lemma dropWhile_all: "list_all P xs \<Longrightarrow> dropWhile P xs = []"
  by (induction xs) auto

lemma trim_blank: "list_all isSpace s \<Longrightarrow> trim s = []"
  by (simp add: trim_def dropWhile_all)

lemma not_space_B: "\<not> isSpace CHR ''B''" "\<not> isSpace CHR ''b''"
  by (simp_all add: isSpace_def)

lemma match_bearer_blank: "list_all isSpace s \<Longrightarrow> match_bearer s = None"
proof (cases s)
  case Nil
  then show ?thesis by (simp add: match_bearer_def bearer_rest_def)
next
  case (Cons c cs)
  assume "list_all isSpace s"
  with Cons have "isSpace c" by simp
  with not_space_B have "c \<noteq> CHR ''B'' \<and> c \<noteq> CHR ''b''" by auto
  with Cons show ?thesis by (simp add: match_bearer_def bearer_rest_def)
qed

lemma getBearerToken_blank: "list_all isSpace s \<Longrightarrow> getBearerToken (Some (Str s)) = None"
  by (simp add: getBearerToken_def match_bearer_blank trim_blank)

lemma getBearerToken_array:
  "getBearerToken (Some (Arr (x # xs))) = getBearerToken (Some (Str x))"
  "getBearerToken (Some (Arr [])) = None"
  by (simp_all add: getBearerToken_def)

lemma httpHandler_no_token:
  "getBearerToken (getAuthHeader (req_headers req)) = None \<Longrightarrow>
   httpHandler env req st = (missingToken env req [incomingRequestLog env req], st)"
  by (simp add: httpHandler_def)

lemma result_missingToken: "result (missingToken env req lg) = Reply 401 ''missing token''"
  by (simp add: missingToken_def)

text \<open>Claim C10. A header value that is empty or all whitespace yields no token; of an array
  only the first element is read; and a request whose \<^verbatim>\<open>Authorization\<close> value is of
  that kind is answered 401 with nothing forwarded and the authentication state, the
  trace of resolver calls included, left as it was.\<close>

theorem blank_authorization_is_missing_token:
  "(list_all isSpace s \<longrightarrow> getBearerToken (Some (Str s)) = None)
   \<and> getBearerToken (Some (Arr (s # rest))) = getBearerToken (Some (Str s))
   \<and> getBearerToken (Some (Arr [])) = None
   \<and> (list_all isSpace s \<and>
       (getAuthHeader (req_headers req) = Some (Str s) \<or> getAuthHeader (req_headers req) = Some (Arr (s # rest)))
      \<longrightarrow> result (fst (httpHandler env req st)) = Reply 401 ''missing token''
          \<and> forwarded (result (fst (httpHandler env req st))) = []
          \<and> snd (httpHandler env req st) = st)"
proof (intro conjI impI)
  assume "list_all isSpace s" then show "getBearerToken (Some (Str s)) = None"
    by (rule getBearerToken_blank)
next
  show "getBearerToken (Some (Arr (s # rest))) = getBearerToken (Some (Str s))"
    by (rule getBearerToken_array)
next
  show "getBearerToken (Some (Arr [])) = None" by (rule getBearerToken_array)
next
  assume h: "list_all isSpace s \<and>
       (getAuthHeader (req_headers req) = Some (Str s) \<or> getAuthHeader (req_headers req) = Some (Arr (s # rest)))"
  then have "getBearerToken (getAuthHeader (req_headers req)) = None"
    using getBearerToken_blank [of s] getBearerToken_array(1) [of s rest] by auto
  then have e: "httpHandler env req st = (missingToken env req [incomingRequestLog env req], st)"
    by (rule httpHandler_no_token)
  show "result (fst (httpHandler env req st)) = Reply 401 ''missing token''"
    by (simp add: e result_missingToken)
  show "forwarded (result (fst (httpHandler env req st))) = []"
    by (simp add: e result_missingToken)
  show "snd (httpHandler env req st) = st" by (simp add: e)
qed

text \<open>Claim C10 on a request whose header is two spaces.\<close>

theorem blank_authorization_is_missing_token_witness:
  "list_all isSpace ''  ''
   \<and> getAuthHeader (req_headers blankRequest) = Some (Str ''  '')
   \<and> getBearerToken (Some (Str ''  '')) = None
   \<and> result (fst (httpHandler exampleEnv blankRequest coldState)) = Reply 401 ''missing token''
   \<and> forwarded (result (fst (httpHandler exampleEnv blankRequest coldState))) = []
   \<and> resolverCalls (snd (httpHandler exampleEnv blankRequest coldState)) = []"
proof -
  have b: "list_all isSpace ''  ''" by (simp add: isSpace_def)
  have g: "getAuthHeader (req_headers blankRequest) = Some (Str ''  '')"
    by (simp add: blankRequest_def requestWith_def getAuthHeader_def)
  note t = blank_authorization_is_missing_token [of "''  ''" "[]" blankRequest exampleEnv coldState]
  from t b have 1: "getBearerToken (Some (Str ''  '')) = None" by blast
  from t b g have 2: "result (fst (httpHandler exampleEnv blankRequest coldState)) = Reply 401 ''missing token''
          \<and> forwarded (result (fst (httpHandler exampleEnv blankRequest coldState))) = []
          \<and> snd (httpHandler exampleEnv blankRequest coldState) = coldState" by blast
  from b g 1 2 show ?thesis by (simp add: coldState_def)
qed

lemma authenticateToken_calls:
  "resolverCalls (snd (authenticateToken r token now st)) = resolverCalls st @ [token]"
  by (simp add: authenticateToken_def storeAuth_def Let_def split: option.splits)

lemma authenticateToken_hit:
  assumes "r token = Some res" and "tokenHash res \<noteq> []"
    and "authCache st (tokenHash res) = Some cached" and "now < expiresAt cached"
  shows "authenticateToken r token now st = (Some cached, st\<lparr>resolverCalls := resolverCalls st @ [token]\<rparr>)"
  using assms by (simp add: authenticateToken_def Let_def)

lemma authenticateToken_caches:
  assumes "r token = Some res" and "authenticateToken r token now st = (Some a, st1)"
  shows "authCache st1 (tokenHash res) = Some a"
  using assms
  by (auto simp: authenticateToken_def storeAuth_def Let_def split: option.splits if_splits)

lemma authenticateToken_Some_hash:
  assumes "r token = Some res" and "authenticateToken r token now st = (Some a, st1)"
  shows "tokenHash res \<noteq> []"
  using assms
  by (auto simp: authenticateToken_def storeAuth_def Let_def split: option.splits if_splits)

text \<open>Claim C1, as amended. Every call of \<^verbatim>\<open>authenticateToken\<close> hands the token to the resolver
  once, hit or miss. When the answer carries a non-empty hash under which a record with
  \<open>now < expiresAt\<close> is cached, that record is returned and the state changes in nothing
  but the trace of resolver calls. So a second resolution of the token within the
  window of the record the first one returned gives the same record, with no usage mark,
  after two resolver calls for the pair.\<close>

theorem authenticateToken_cache_hit:
  "resolverCalls (snd (authenticateToken r token now st)) = resolverCalls st @ [token]
   \<and> (r token = Some res \<and> tokenHash res \<noteq> [] \<and> authCache st (tokenHash res) = Some cached
        \<and> now < expiresAt cached
      \<longrightarrow> authenticateToken r token now st = (Some cached, st\<lparr>resolverCalls := resolverCalls st @ [token]\<rparr>))
   \<and> (r token = Some res \<and> authenticateToken r token now st = (Some a, st1)
        \<and> r' token = Some res' \<and> tokenHash res' = tokenHash res \<and> now' < expiresAt a
      \<longrightarrow> fst (authenticateToken r' token now' st1) = Some a
          \<and> markedUsed (snd (authenticateToken r' token now' st1)) = markedUsed st1
          \<and> resolverCalls (snd (authenticateToken r' token now' st1)) = resolverCalls st @ [token, token])"
proof (intro conjI impI)
  show "resolverCalls (snd (authenticateToken r token now st)) = resolverCalls st @ [token]"
    by (rule authenticateToken_calls)
next
  assume "r token = Some res \<and> tokenHash res \<noteq> [] \<and> authCache st (tokenHash res) = Some cached
        \<and> now < expiresAt cached"
  then show "authenticateToken r token now st = (Some cached, st\<lparr>resolverCalls := resolverCalls st @ [token]\<rparr>)"
    by (simp add: authenticateToken_hit)
next
  assume h: "r token = Some res \<and> authenticateToken r token now st = (Some a, st1)
        \<and> r' token = Some res' \<and> tokenHash res' = tokenHash res \<and> now' < expiresAt a"
  then have c: "authCache st1 (tokenHash res') = Some a"
    using authenticateToken_caches [of r token res now st a st1] by simp
  from h have ne: "tokenHash res' \<noteq> []"
    using authenticateToken_Some_hash [of r token res now st a st1] by simp
  from h c ne have e: "authenticateToken r' token now' st1
      = (Some a, st1\<lparr>resolverCalls := resolverCalls st1 @ [token]\<rparr>)"
    using authenticateToken_hit [of r' token res' st1 a now'] by simp
  from h have rc: "resolverCalls st1 = resolverCalls st @ [token]"
    using authenticateToken_calls [of r token now st] by simp
  show "fst (authenticateToken r' token now' st1) = Some a" by (simp add: e)
  show "markedUsed (snd (authenticateToken r' token now' st1)) = markedUsed st1" by (simp add: e)
  show "resolverCalls (snd (authenticateToken r' token now' st1)) = resolverCalls st @ [token, token]"
    by (simp add: e rc)
qed

lemma warmState_eq:
  "warmState = \<lparr>authCache = [''hash-abc'' \<mapsto> exampleRecord], resolverCalls = [''abc''], markedUsed = [''id-abc'']\<rparr>"
  by (simp add: warmState_def authenticateToken_def storeAuth_def exampleResolver_def exampleResolved_def
      coldState_def exampleRecord_def Let_def)

lemma cold_first: "authenticateToken exampleResolver ''abc'' 10 coldState = (Some exampleRecord, warmState)"
  by (simp add: warmState_eq) (simp add: authenticateToken_def storeAuth_def exampleResolver_def exampleResolved_def
      coldState_def exampleRecord_def Let_def)

text \<open>The amended claim C1 on the token \<^verbatim>\<open>abc\<close>, resolved at time 10 and again at time 50.\<close>

theorem authenticateToken_cache_hit_witness:
  "fst (authenticateToken exampleResolver ''abc'' 50 warmState) = Some exampleRecord
   \<and> markedUsed (snd (authenticateToken exampleResolver ''abc'' 50 warmState)) = [''id-abc'']
   \<and> resolverCalls (snd (authenticateToken exampleResolver ''abc'' 50 warmState)) = [''abc'', ''abc'']"
proof -
  have h: "exampleResolver ''abc'' = Some exampleResolved
      \<and> authenticateToken exampleResolver ''abc'' 10 coldState = (Some exampleRecord, warmState)
      \<and> exampleResolver ''abc'' = Some exampleResolved \<and> tokenHash exampleResolved = tokenHash exampleResolved
      \<and> 50 < expiresAt exampleRecord"
    by (simp add: cold_first) (simp add: exampleResolver_def exampleRecord_def)
  have "fst (authenticateToken exampleResolver ''abc'' 50 warmState) = Some exampleRecord
          \<and> markedUsed (snd (authenticateToken exampleResolver ''abc'' 50 warmState)) = markedUsed warmState
          \<and> resolverCalls (snd (authenticateToken exampleResolver ''abc'' 50 warmState)) = resolverCalls coldState @ [''abc'', ''abc'']"
    using authenticateToken_cache_hit [of exampleResolver "''abc''" 10 coldState exampleResolved
        exampleRecord exampleRecord warmState exampleResolver exampleResolved 50] h by blast
  then show ?thesis by (simp add: warmState_eq coldState_def)
qed

text \<open>Claim C1 as stated fails: with the record of \<^verbatim>\<open>abc\<close> cached and not expired, the
  resolution returns the cached record and has called the resolver a second time.\<close>

theorem resolver_called_on_cache_hit:
  "authCache warmState ''hash-abc'' = Some exampleRecord
   \<and> 50 < expiresAt exampleRecord
   \<and> fst (authenticateToken exampleResolver ''abc'' 50 warmState) = Some exampleRecord
   \<and> resolverCalls warmState = [''abc'']
   \<and> resolverCalls (snd (authenticateToken exampleResolver ''abc'' 50 warmState)) = [''abc'', ''abc'']"
  by (simp add: warmState_eq) (simp add: authenticateToken_def exampleResolver_def exampleResolved_def exampleRecord_def Let_def)

lemma toLowerCase_authorization: "toLowerCase ''authorization'' = ''authorization''"
  by (simp add: toLowerCase_def lowerChar_def)

lemma map_of_absent: "list_all (\<lambda>k. toLowerCase k \<noteq> ''authorization'') (Object_keys hs) \<Longrightarrow> map_of hs ''authorization'' = None"
proof (induction hs)
  case Nil
  then show ?case by simp
next
  case (Cons kv hs)
  then show ?case using toLowerCase_authorization by (cases kv) (auto simp: Object_keys_def)
qed

lemma find_absent: "list_all (\<lambda>k. \<not> P k) ks \<Longrightarrow> find P ks = None"
  by (induction ks) auto

lemma getAuthHeader_absent:
  "list_all (\<lambda>k. toLowerCase k \<noteq> ''authorization'') (Object_keys hs) \<Longrightarrow> getAuthHeader hs = None"
  by (simp add: getAuthHeader_def map_of_absent find_absent)

lemma getBearerToken_None: "getBearerToken None = None"
  by (simp add: getBearerToken_def)

lemma httpHandler_empty_token:
  "getBearerToken (getAuthHeader (req_headers req)) = Some [] \<Longrightarrow>
   httpHandler env req st = (missingToken env req [incomingRequestLog env req], st)"
  by (simp add: httpHandler_def)

lemma result_invalidToken: "result (invalidToken env req tk lg) = Reply 401 ''invalid token''"
  by (simp add: invalidToken_def)

lemma authenticateToken_unresolved:
  "r token = None \<Longrightarrow> authenticateToken r token now st = (None, st\<lparr>resolverCalls := resolverCalls st @ [token]\<rparr>)"
  by (simp add: authenticateToken_def)

lemma httpHandler_unresolved:
  "getBearerToken (getAuthHeader (req_headers req)) = Some tk \<Longrightarrow> tk \<noteq> [] \<Longrightarrow>
   resolveIngestionToken env tk = None \<Longrightarrow>
   httpHandler env req st =
     (invalidToken env req tk [incomingRequestLog env req], st\<lparr>resolverCalls := resolverCalls st @ [tk]\<rparr>)"
  by (simp add: httpHandler_def authenticateToken_unresolved)

lemma streamHandler_no_token:
  "getBearerToken (getAuthHeader hdrs) = None \<or> getBearerToken (getAuthHeader hdrs) = Some [] \<Longrightarrow>
   streamHandler env hdrs rt et ast st =
     (Done, rejectMissing env rt et (addLog (incomingStreamLog env hdrs) st), ast)"
  by (auto simp: streamHandler_def)

lemma streamHandler_unresolved:
  "getBearerToken (getAuthHeader hdrs) = Some tk \<Longrightarrow> tk \<noteq> [] \<Longrightarrow>
   resolveIngestionToken env tk = None \<Longrightarrow>
   streamHandler env hdrs rt et ast st =
     (Done, rejectInvalid env tk rt et (addLog (incomingStreamLog env hdrs) st),
      ast\<lparr>resolverCalls := resolverCalls ast @ [tk]\<rparr>)"
  by (simp add: streamHandler_def authenticateToken_unresolved)

text \<open>What the guards do to the fields that matter.\<close>

lemma addLog_fields [simp]:
  "responses (addLog e st) = responses st" "ends (addLog e st) = ends st"
  "streamResponded (addLog e st) = streamResponded st" "streamEnded (addLog e st) = streamEnded st"
  "destroyed (addLog e st) = destroyed st" "closed (addLog e st) = closed st"
  "listening (addLog e st) = listening st" "toProxy (addLog e st) = toProxy st"
  "toClient (addLog e st) = toClient st" "requestHeaders (addLog e st) = requestHeaders st"
  "proxyDestroyed (addLog e st) = proxyDestroyed st" "proxyClosed (addLog e st) = proxyClosed st"
  by (simp_all add: addLog_def)

lemma safeRespond_fields [simp]:
  "ends (safeRespond env hs t st) = ends st"
  "streamEnded (safeRespond env hs t st) = streamEnded st"
  "destroyed (safeRespond env hs t st) = destroyed st" "closed (safeRespond env hs t st) = closed st"
  "listening (safeRespond env hs t st) = listening st" "toProxy (safeRespond env hs t st) = toProxy st"
  "toClient (safeRespond env hs t st) = toClient st" "requestHeaders (safeRespond env hs t st) = requestHeaders st"
  "proxyDestroyed (safeRespond env hs t st) = proxyDestroyed st" "proxyClosed (safeRespond env hs t st) = proxyClosed st"
  by (simp_all add: safeRespond_def)

lemma safeRespond_responses:
  "responses (safeRespond env hs t st) =
     responses st @ (if \<not> streamResponded st \<and> \<not> destroyed st \<and> \<not> closed st \<and> \<not> t then [hs] else [])"
  by (simp add: safeRespond_def)

lemma safeEnd_fields [simp]:
  "responses (safeEnd t st) = responses st"
  "streamResponded (safeEnd t st) = streamResponded st"
  "destroyed (safeEnd t st) = destroyed st" "closed (safeEnd t st) = closed st"
  "listening (safeEnd t st) = listening st" "toProxy (safeEnd t st) = toProxy st"
  "toClient (safeEnd t st) = toClient st" "requestHeaders (safeEnd t st) = requestHeaders st"
  "proxyDestroyed (safeEnd t st) = proxyDestroyed st" "proxyClosed (safeEnd t st) = proxyClosed st"
  by (simp_all add: safeEnd_def)

lemma reject_responses:
  "responses (rejectMissing env rt et st) =
     responses st @ (if \<not> streamResponded st \<and> \<not> destroyed st \<and> \<not> closed st \<and> \<not> rt then [Status 401] else [])"
  "responses (rejectInvalid env tk rt et st) =
     responses st @ (if \<not> streamResponded st \<and> \<not> destroyed st \<and> \<not> closed st \<and> \<not> rt then [Status 401] else [])"
  by (simp_all add: rejectMissing_def rejectInvalid_def finalize_def safeRespond_responses)

lemma reject_listening:
  "listening (rejectMissing env rt et st) = Counting" "listening (rejectInvalid env tk rt et st) = Counting"
  "toProxy (rejectMissing env rt et st) = toProxy st" "toProxy (rejectInvalid env tk rt et st) = toProxy st"
  "requestHeaders (rejectMissing env rt et st) = requestHeaders st"
  "requestHeaders (rejectInvalid env tk rt et st) = requestHeaders st"
  by (simp_all add: rejectMissing_def rejectInvalid_def finalize_def)

lemma step_Counting:
  "listening st = Counting \<Longrightarrow>
   listening (step env hdrs auth target ev st) = Counting \<and>
   toProxy (step env hdrs auth target ev st) = toProxy st \<and>
   requestHeaders (step env hdrs auth target ev st) = requestHeaders st"
  by (cases ev) (simp_all add: step_def countChunk_def onStreamError_def onStreamClose_def)

lemma runEvents_Counting:
  "listening st = Counting \<Longrightarrow>
   listening (runEvents env hdrs auth target evs st) = Counting \<and>
   toProxy (runEvents env hdrs auth target evs st) = toProxy st \<and>
   requestHeaders (runEvents env hdrs auth target evs st) = requestHeaders st"
proof (induction evs arbitrary: st)
  case Nil
  then show ?case by (simp add: runEvents_def)
next
  case (Cons ev evs)
  from Cons.prems have s: "listening (step env hdrs auth target ev st) = Counting \<and>
   toProxy (step env hdrs auth target ev st) = toProxy st \<and>
   requestHeaders (step env hdrs auth target ev st) = requestHeaders st" by (rule step_Counting)
  then have "listening (runEvents env hdrs auth target evs (step env hdrs auth target ev st)) = Counting \<and>
   toProxy (runEvents env hdrs auth target evs (step env hdrs auth target ev st)) = toProxy (step env hdrs auth target ev st) \<and>
   requestHeaders (runEvents env hdrs auth target evs (step env hdrs auth target ev st)) = requestHeaders (step env hdrs auth target ev st)"
    using Cons.IH by blast
  with s show ?case by (simp add: runEvents_def)
qed

text \<open>Claim C3. When the token is missing, empty or unknown to the resolver, the request is
  answered 401 and none of its body is forwarded; the stream listener stops without
  asking for a session, the one status it sends is 401 (sent when the stream is still
  open, has no response yet and \<^verbatim>\<open>stream.respond\<close> does not raise), and whatever events
  follow, no outbound request is made and no chunk is piped to a shard. When no key of
  the headers is \<^verbatim>\<open>authorization\<close> in any casing, the authentication state is left as
  it was: the resolver is not called.\<close>

theorem unauthorized_gets_401:
  "((getBearerToken (getAuthHeader (req_headers req)) = None
       \<or> getBearerToken (getAuthHeader (req_headers req)) = Some []
       \<or> (\<exists>tk. getBearerToken (getAuthHeader (req_headers req)) = Some tk
                 \<and> resolveIngestionToken env tk = None))
      \<longrightarrow> (\<exists>body. result (fst (httpHandler env req ast)) = Reply 401 body)
          \<and> forwarded (result (fst (httpHandler env req ast))) = [])
   \<and> ((getBearerToken (getAuthHeader hdrs) = None
       \<or> getBearerToken (getAuthHeader hdrs) = Some []
       \<or> (\<exists>tk. getBearerToken (getAuthHeader hdrs) = Some tk \<and> resolveIngestionToken env tk = None))
      \<longrightarrow> fst (streamHandler env hdrs respondThrows endThrows ast st) = Done
          \<and> responses (fst (snd (streamHandler env hdrs respondThrows endThrows ast st))) =
                responses st @
                (if \<not> streamResponded st \<and> \<not> destroyed st \<and> \<not> closed st \<and> \<not> respondThrows
                 then [Status 401] else [])
          \<and> requestHeaders (runEvents env hdrs auth target evs
                (fst (snd (streamHandler env hdrs respondThrows endThrows ast st)))) = requestHeaders st
          \<and> toProxy (runEvents env hdrs auth target evs
                (fst (snd (streamHandler env hdrs respondThrows endThrows ast st)))) = toProxy st)
   \<and> (list_all (\<lambda>k. toLowerCase k \<noteq> ''authorization'') (Object_keys (req_headers req))
      \<longrightarrow> result (fst (httpHandler env req ast)) = Reply 401 ''missing token''
          \<and> snd (httpHandler env req ast) = ast)
   \<and> (list_all (\<lambda>k. toLowerCase k \<noteq> ''authorization'') (Object_keys hdrs)
      \<longrightarrow> snd (snd (streamHandler env hdrs respondThrows endThrows ast st)) = ast)"
proof (intro conjI impI)
  assume h: "getBearerToken (getAuthHeader (req_headers req)) = None
       \<or> getBearerToken (getAuthHeader (req_headers req)) = Some []
       \<or> (\<exists>tk. getBearerToken (getAuthHeader (req_headers req)) = Some tk
                 \<and> resolveIngestionToken env tk = None)"
  have "\<exists>body a. httpHandler env req ast = (a, snd (httpHandler env req ast)) \<and> result a = Reply 401 body"
  proof (cases "getBearerToken (getAuthHeader (req_headers req))")
    case None
    then show ?thesis by (simp add: httpHandler_no_token result_missingToken)
  next
    case (Some tk)
    show ?thesis
    proof (cases "tk = []")
      case True
      with Some show ?thesis by (simp add: httpHandler_empty_token result_missingToken)
    next
      case False
      with Some h have "resolveIngestionToken env tk = None" by auto
      with Some False show ?thesis by (simp add: httpHandler_unresolved result_invalidToken)
    qed
  qed
  then obtain body a where a: "httpHandler env req ast = (a, snd (httpHandler env req ast))"
    and r: "result a = Reply 401 body" by blast
  from a have f: "fst (httpHandler env req ast) = a" by (metis fst_conv)
  from f r show "\<exists>body. result (fst (httpHandler env req ast)) = Reply 401 body" by simp
  from f r show "forwarded (result (fst (httpHandler env req ast))) = []" by simp
next
  assume h: "getBearerToken (getAuthHeader hdrs) = None
       \<or> getBearerToken (getAuthHeader hdrs) = Some []
       \<or> (\<exists>tk. getBearerToken (getAuthHeader hdrs) = Some tk \<and> resolveIngestionToken env tk = None)"
  define st0 where "st0 = addLog (incomingStreamLog env hdrs) st"
  have "\<exists>st' ast'. streamHandler env hdrs respondThrows endThrows ast st = (Done, st', ast')
          \<and> responses st' = responses st @
                (if \<not> streamResponded st \<and> \<not> destroyed st \<and> \<not> closed st \<and> \<not> respondThrows
                 then [Status 401] else [])
          \<and> listening st' = Counting \<and> toProxy st' = toProxy st \<and> requestHeaders st' = requestHeaders st"
  proof (cases "getBearerToken (getAuthHeader hdrs) = None \<or> getBearerToken (getAuthHeader hdrs) = Some []")
    case True
    then show ?thesis by (simp add: streamHandler_no_token reject_responses reject_listening)
  next
    case False
    with h obtain tk where "getBearerToken (getAuthHeader hdrs) = Some tk" "tk \<noteq> []"
      "resolveIngestionToken env tk = None" by auto
    then show ?thesis by (simp add: streamHandler_unresolved reject_responses reject_listening)
  qed
  then obtain st' ast' where e: "streamHandler env hdrs respondThrows endThrows ast st = (Done, st', ast')"
    and r: "responses st' = responses st @
                (if \<not> streamResponded st \<and> \<not> destroyed st \<and> \<not> closed st \<and> \<not> respondThrows
                 then [Status 401] else [])"
    and l: "listening st' = Counting" and t: "toProxy st' = toProxy st"
    and q: "requestHeaders st' = requestHeaders st" by blast
  from e show "fst (streamHandler env hdrs respondThrows endThrows ast st) = Done" by simp
  from e r show "responses (fst (snd (streamHandler env hdrs respondThrows endThrows ast st))) =
                responses st @
                (if \<not> streamResponded st \<and> \<not> destroyed st \<and> \<not> closed st \<and> \<not> respondThrows
                 then [Status 401] else [])" by simp
  from e q runEvents_Counting [OF l, of env hdrs auth target evs]
  show "requestHeaders (runEvents env hdrs auth target evs
                (fst (snd (streamHandler env hdrs respondThrows endThrows ast st)))) = requestHeaders st" by simp
  from e t runEvents_Counting [OF l, of env hdrs auth target evs]
  show "toProxy (runEvents env hdrs auth target evs
                (fst (snd (streamHandler env hdrs respondThrows endThrows ast st)))) = toProxy st" by simp
next
  assume "list_all (\<lambda>k. toLowerCase k \<noteq> ''authorization'') (Object_keys (req_headers req))"
  then have n: "getBearerToken (getAuthHeader (req_headers req)) = None"
    by (simp add: getAuthHeader_absent getBearerToken_None)
  from n show "result (fst (httpHandler env req ast)) = Reply 401 ''missing token''"
    by (simp add: httpHandler_no_token result_missingToken)
  from n show "snd (httpHandler env req ast) = ast" by (simp add: httpHandler_no_token)
next
  assume "list_all (\<lambda>k. toLowerCase k \<noteq> ''authorization'') (Object_keys hdrs)"
  then have "getBearerToken (getAuthHeader hdrs) = None"
    by (simp add: getAuthHeader_absent getBearerToken_None)
  then show "snd (snd (streamHandler env hdrs respondThrows endThrows ast st)) = ast"
    by (simp add: streamHandler_no_token)
qed

lemma token_nope: "getBearerToken (getAuthHeader [(''authorization'', Str ''Bearer nope'')]) = Some ''nope''"
  by (simp add: getAuthHeader_def getBearerToken_def match_bearer_def bearer_rest_def isSpace_def
      isLineTerminator_def trim_def)

text \<open>Claim C3 on a request with an unknown token and on one with no \<^verbatim>\<open>Authorization\<close>
  header.\<close>

theorem unauthorized_gets_401_witness:
  "getBearerToken (getAuthHeader (req_headers unknownRequest)) = Some ''nope''
   \<and> resolveIngestionToken exampleEnv ''nope'' = None
   \<and> result (fst (httpHandler exampleEnv unknownRequest coldState)) = Reply 401 ''invalid token''
   \<and> forwarded (result (fst (httpHandler exampleEnv unknownRequest coldState))) = []
   \<and> fst (streamHandler exampleEnv (req_headers unknownRequest) False False coldState freshStream) = Done
   \<and> responses (fst (snd (streamHandler exampleEnv (req_headers unknownRequest) False False coldState freshStream)))
        = [Status 401]
   \<and> toProxy (runEvents exampleEnv (req_headers unknownRequest) exampleRecord ''http://h1:9''
         [InboundData ''payload'', InboundEnd, InboundClose]
         (fst (snd (streamHandler exampleEnv (req_headers unknownRequest) False False coldState freshStream)))) = []
   \<and> list_all (\<lambda>k. toLowerCase k \<noteq> ''authorization'') (Object_keys (req_headers bareRequest))
   \<and> result (fst (httpHandler exampleEnv bareRequest coldState)) = Reply 401 ''missing token''
   \<and> resolverCalls (snd (httpHandler exampleEnv bareRequest coldState)) = []
   \<and> resolverCalls (snd (snd (streamHandler exampleEnv (req_headers bareRequest) False False coldState freshStream))) = []"
proof -
  have tk: "getBearerToken (getAuthHeader (req_headers unknownRequest)) = Some ''nope''"
    by (simp add: unknownRequest_def requestWith_def token_nope)
  have un: "resolveIngestionToken exampleEnv ''nope'' = None"
    by (simp add: exampleEnv_def exampleResolver_def)
  have ab: "list_all (\<lambda>k. toLowerCase k \<noteq> ''authorization'') (Object_keys (req_headers bareRequest))"
    by (simp add: bareRequest_def requestWith_def Object_keys_def toLowerCase_def lowerChar_def)
  note t1 = unauthorized_gets_401 [of unknownRequest exampleEnv coldState "req_headers unknownRequest"
      False False freshStream exampleRecord "''http://h1:9''" "[InboundData ''payload'', InboundEnd, InboundClose]"]
  note t2 = unauthorized_gets_401 [of bareRequest exampleEnv coldState "req_headers bareRequest"
      False False freshStream exampleRecord "''http://h1:9''" "[]"]
  have h: "\<exists>t. getBearerToken (getAuthHeader (req_headers unknownRequest)) = Some t
       \<and> resolveIngestionToken exampleEnv t = None" using tk un by blast
  from t1 h have a: "(\<exists>body. result (fst (httpHandler exampleEnv unknownRequest coldState)) = Reply 401 body)
     \<and> forwarded (result (fst (httpHandler exampleEnv unknownRequest coldState))) = []" by blast
  have a': "result (fst (httpHandler exampleEnv unknownRequest coldState)) = Reply 401 ''invalid token''"
    using tk un by (simp add: httpHandler_unresolved result_invalidToken)
  from t1 h have b: "fst (streamHandler exampleEnv (req_headers unknownRequest) False False coldState freshStream) = Done
    \<and> responses (fst (snd (streamHandler exampleEnv (req_headers unknownRequest) False False coldState freshStream))) =
                responses freshStream @
                (if \<not> streamResponded freshStream \<and> \<not> destroyed freshStream \<and> \<not> closed freshStream \<and> \<not> False
                 then [Status 401] else [])
    \<and> toProxy (runEvents exampleEnv (req_headers unknownRequest) exampleRecord ''http://h1:9''
         [InboundData ''payload'', InboundEnd, InboundClose]
         (fst (snd (streamHandler exampleEnv (req_headers unknownRequest) False False coldState freshStream)))) = toProxy freshStream"
    by blast
  from t2 ab have c: "result (fst (httpHandler exampleEnv bareRequest coldState)) = Reply 401 ''missing token''
          \<and> snd (httpHandler exampleEnv bareRequest coldState) = coldState
          \<and> snd (snd (streamHandler exampleEnv (req_headers bareRequest) False False coldState freshStream)) = coldState"
    by blast
  from tk un a a' b ab c show ?thesis by (simp add: freshStream_def coldState_def)
qed

lemma httpHandler_authenticated:
  assumes "getBearerToken (getAuthHeader (req_headers req)) = Some tk" and "tk \<noteq> []"
    and "authenticateToken (resolveIngestionToken env) tk (dateNow env) ast = (Some auth, ast')"
  shows "httpHandler env req ast = (routeHttp env req auth [incomingRequestLog env req], ast')"
  using assms by (simp add: httpHandler_def)

lemma token_abc: "getBearerToken (getAuthHeader (req_headers exampleRequest)) = Some ''abc''"
  by (simp add: exampleRequest_def requestWith_def getAuthHeader_def getBearerToken_def match_bearer_def
      bearer_rest_def isSpace_def isLineTerminator_def trim_def)

lemma auth_abc:
  "authenticateToken (resolveIngestionToken exampleEnv) ''abc'' (dateNow exampleEnv) coldState
     = (Some exampleRecord, warmState)"
  by (simp add: warmState_def)
     (simp add: exampleEnv_def authenticateToken_def storeAuth_def exampleResolver_def exampleResolved_def
      coldState_def exampleRecord_def Let_def)

lemma auth_abc_noshard:
  "authenticateToken (resolveIngestionToken exampleEnvNoShard) ''abc'' (dateNow exampleEnvNoShard) coldState
     = (Some (exampleRecord\<lparr>assignedShard := None\<rparr>),
        \<lparr>authCache = [''hash-abc'' \<mapsto> exampleRecord\<lparr>assignedShard := None\<rparr>],
         resolverCalls = [''abc''], markedUsed = [''id-abc'']\<rparr>)"
  by (simp add: exampleEnvNoShard_def exampleEnv_def authenticateToken_def storeAuth_def
      exampleResolverNoShard_def exampleResolved_def coldState_def exampleRecord_def Let_def)

lemma example_endpoint:
  "pickShardEndpoint (shardOrDefault exampleRecord) (INGESTION_SHARD_HTTP_ENDPOINTS exampleEnv)
     = Some ''http://h1:9''"
  "pickShardEndpoint (shardOrDefault (exampleRecord\<lparr>assignedShard := None\<rparr>))
       (INGESTION_SHARD_HTTP_ENDPOINTS exampleEnvNoShard)
     = Some ''http://h0:9''"
  by (simp_all add: pickShardEndpoint_def shardIndexFromId_def match_shard_def shardOrDefault_def
      exampleRecord_def exampleEnvNoShard_def exampleEnv_def exampleEndpoints_def isDigit_def parseInt10_def
      digitVal_def)

lemma route_example:
  "result (routeHttp exampleEnv exampleRequest exampleRecord lg) = Proxy
     \<lparr>o_protocol = ''http:'', o_hostname = ''h1'', o_port = ''9'', o_method = ''POST'', o_path = ''/v1/logs'',
      o_headers = [(''content-type'', Str ''application/json''), (''authorization'', Str ''Bearer abc''),
                   (''host'', Str ''h1:9''), (''x-hdx-team-id'', Str ''t1'')],
      o_body = [''payload'']\<rparr>"
  by (simp add: routeHttp_def example_endpoint Let_def)
     (simp add: exampleEnv_def exampleURL_def exampleURL2_def exampleRequest_def requestWith_def
        exampleRecord_def)

lemma route_noshard:
  "result (routeHttp exampleEnvNoShard exampleRequest (exampleRecord\<lparr>assignedShard := None\<rparr>) lg) = Proxy
     \<lparr>o_protocol = ''http:'', o_hostname = ''h0'', o_port = ''9'', o_method = ''POST'', o_path = ''/v1/logs'',
      o_headers = [(''content-type'', Str ''application/json''), (''authorization'', Str ''Bearer abc''),
                   (''host'', Str ''h0:9''), (''x-hdx-team-id'', Str ''t1'')],
      o_body = [''payload'']\<rparr>"
  by (simp add: routeHttp_def example_endpoint Let_def)
     (simp add: exampleEnvNoShard_def exampleEnv_def exampleURL_def exampleURL2_def exampleRequest_def
        requestWith_def exampleRecord_def)

lemma route_evil:
  "result (routeHttp exampleEnv evilRequest exampleRecord lg) = Proxy
     \<lparr>o_protocol = ''http:'', o_hostname = ''evil.example'', o_port = [], o_method = ''POST'',
      o_path = ''/v1/logs'',
      o_headers = [(''content-type'', Str ''application/json''), (''authorization'', Str ''Bearer abc''),
                   (''host'', Str ''evil.example''), (''x-hdx-team-id'', Str ''t1'')],
      o_body = [''payload'']\<rparr>"
  by (simp add: routeHttp_def example_endpoint Let_def)
     (simp add: exampleEnv_def exampleURL_def exampleURL2_def evilRequest_def exampleRequest_def
        requestWith_def exampleRecord_def)

lemma route_absolute:
  "result (routeHttp exampleEnv absoluteRequest exampleRecord lg) = Proxy
     \<lparr>o_protocol = ''http:'', o_hostname = ''evil.example'', o_port = [], o_method = ''POST'',
      o_path = ''/v1/logs'',
      o_headers = [(''content-type'', Str ''application/json''), (''authorization'', Str ''Bearer abc''),
                   (''host'', Str ''evil.example''), (''x-hdx-team-id'', Str ''t1'')],
      o_body = [''payload'']\<rparr>"
  by (simp add: routeHttp_def example_endpoint Let_def)
     (simp add: exampleEnv_def exampleURL_def exampleURL2_def absoluteRequest_def exampleRequest_def
        requestWith_def exampleRecord_def)

lemma handler_routes:
  "httpHandler exampleEnv exampleRequest coldState
     = (routeHttp exampleEnv exampleRequest exampleRecord [incomingRequestLog exampleEnv exampleRequest], warmState)"
  "httpHandler exampleEnv evilRequest coldState
     = (routeHttp exampleEnv evilRequest exampleRecord [incomingRequestLog exampleEnv evilRequest], warmState)"
  "httpHandler exampleEnv absoluteRequest coldState
     = (routeHttp exampleEnv absoluteRequest exampleRecord [incomingRequestLog exampleEnv absoluteRequest],
        warmState)"
  "fst (httpHandler exampleEnvNoShard exampleRequest coldState)
     = routeHttp exampleEnvNoShard exampleRequest (exampleRecord\<lparr>assignedShard := None\<rparr>)
         [incomingRequestLog exampleEnvNoShard exampleRequest]"
proof -
  have e: "req_headers evilRequest = req_headers exampleRequest"
    "req_headers absoluteRequest = req_headers exampleRequest"
    by (simp_all add: evilRequest_def absoluteRequest_def)
  show "httpHandler exampleEnv exampleRequest coldState
     = (routeHttp exampleEnv exampleRequest exampleRecord [incomingRequestLog exampleEnv exampleRequest], warmState)"
    using token_abc auth_abc by (simp add: httpHandler_authenticated)
  show "httpHandler exampleEnv evilRequest coldState
     = (routeHttp exampleEnv evilRequest exampleRecord [incomingRequestLog exampleEnv evilRequest], warmState)"
    using token_abc auth_abc e by (simp add: httpHandler_authenticated)
  show "httpHandler exampleEnv absoluteRequest coldState
     = (routeHttp exampleEnv absoluteRequest exampleRecord [incomingRequestLog exampleEnv absoluteRequest],
        warmState)"
    using token_abc auth_abc e by (simp add: httpHandler_authenticated)
  show "fst (httpHandler exampleEnvNoShard exampleRequest coldState)
     = routeHttp exampleEnvNoShard exampleRequest (exampleRecord\<lparr>assignedShard := None\<rparr>)
         [incomingRequestLog exampleEnvNoShard exampleRequest]"
    using token_abc auth_abc_noshard by (simp add: httpHandler_authenticated)
qed

text \<open>Claim C5 fails on the code. The scenarios of the specification go where the claim says:
  \<^verbatim>\<open>Bearer abc\<close> on \<^verbatim>\<open>shard-1\<close> is sent to \<^verbatim>\<open>h1:9\<close> with \<^verbatim>\<open>x-hdx-team-id: t1\<close>, and with no
  assigned shard to \<^verbatim>\<open>h0:9\<close>. But the host of the outbound request is read from
  \<^verbatim>\<open>new URL(req.url, base)\<close>, not from the endpoint: the same authenticated request with
  the target \<^verbatim>\<open>//evil.example/v1/logs\<close>, or \<^verbatim>\<open>http://evil.example/v1/logs\<close>, is sent to
  \<^verbatim>\<open>evil.example\<close>, with its \<^verbatim>\<open>Authorization\<close> header, the tenant header and its body,
  while the endpoint picked for its record is \<^verbatim>\<open>http://h1:9\<close>.\<close>

theorem request_target_replaces_shard_host:
  "fst (authenticateToken (resolveIngestionToken exampleEnv) ''abc'' (dateNow exampleEnv) coldState)
     = Some exampleRecord
   \<and> pickShardEndpoint (shardOrDefault exampleRecord) (INGESTION_SHARD_HTTP_ENDPOINTS exampleEnv)
       = Some ''http://h1:9''
   \<and> result (fst (httpHandler exampleEnv exampleRequest coldState)) = Proxy
       \<lparr>o_protocol = ''http:'', o_hostname = ''h1'', o_port = ''9'', o_method = ''POST'', o_path = ''/v1/logs'',
        o_headers = [(''content-type'', Str ''application/json''), (''authorization'', Str ''Bearer abc''),
                     (''host'', Str ''h1:9''), (''x-hdx-team-id'', Str ''t1'')],
        o_body = [''payload'']\<rparr>
   \<and> result (fst (httpHandler exampleEnvNoShard exampleRequest coldState)) = Proxy
       \<lparr>o_protocol = ''http:'', o_hostname = ''h0'', o_port = ''9'', o_method = ''POST'', o_path = ''/v1/logs'',
        o_headers = [(''content-type'', Str ''application/json''), (''authorization'', Str ''Bearer abc''),
                     (''host'', Str ''h0:9''), (''x-hdx-team-id'', Str ''t1'')],
        o_body = [''payload'']\<rparr>
   \<and> req_url evilRequest = ''//evil.example/v1/logs''
   \<and> result (fst (httpHandler exampleEnv evilRequest coldState)) = Proxy
       \<lparr>o_protocol = ''http:'', o_hostname = ''evil.example'', o_port = [], o_method = ''POST'',
        o_path = ''/v1/logs'',
        o_headers = [(''content-type'', Str ''application/json''), (''authorization'', Str ''Bearer abc''),
                     (''host'', Str ''evil.example''), (''x-hdx-team-id'', Str ''t1'')],
        o_body = [''payload'']\<rparr>
   \<and> req_url absoluteRequest = ''http://evil.example/v1/logs''
   \<and> result (fst (httpHandler exampleEnv absoluteRequest coldState)) = Proxy
       \<lparr>o_protocol = ''http:'', o_hostname = ''evil.example'', o_port = [], o_method = ''POST'',
        o_path = ''/v1/logs'',
        o_headers = [(''content-type'', Str ''application/json''), (''authorization'', Str ''Bearer abc''),
                     (''host'', Str ''evil.example''), (''x-hdx-team-id'', Str ''t1'')],
        o_body = [''payload'']\<rparr>"
  by (simp add: auth_abc example_endpoint handler_routes route_example route_noshard route_evil route_absolute)
     (simp add: evilRequest_def absoluteRequest_def)


































lemma guarded_addLog [simp]: "guarded (addLog e st) = guarded st"
  by (simp add: guarded_def guardEnds_def addLog_def)

lemma guarded_safeRespond: "guarded st \<Longrightarrow> guarded (safeRespond env hs t st)"
  by (auto simp: guarded_def guardEnds_def safeRespond_def addLog_def split: if_splits)

lemma guarded_safeEnd: "guarded st \<Longrightarrow> guarded (safeEnd t st)"
  by (auto simp: guarded_def guardEnds_def safeEnd_def split: if_splits)

lemma guarded_finalize: "guarded st \<Longrightarrow> guarded (finalize env n rt et st)"
  by (simp add: finalize_def guarded_safeRespond guarded_safeEnd)

lemma guarded_frame [simp]:
  "guarded (st\<lparr>authFailed := a\<rparr>) = guarded st"
  "guarded (st\<lparr>listening := m\<rparr>) = guarded st"
  "guarded (st\<lparr>s_teamId := t\<rparr>) = guarded st"
  "guarded (st\<lparr>requestHeaders := q\<rparr>) = guarded st"
  "guarded (st\<lparr>responseReceived := b\<rparr>) = guarded st"
  "guarded (st\<lparr>dataSentToProxy := b\<rparr>) = guarded st"
  "guarded (st\<lparr>dataReceivedFromProxy := b\<rparr>) = guarded st"
  "guarded (st\<lparr>proxyDestroyed := b\<rparr>) = guarded st"
  "guarded (st\<lparr>proxyClosed := b\<rparr>) = guarded st"
  "guarded (st\<lparr>destroyed := b\<rparr>) = guarded st"
  "guarded (st\<lparr>closed := b\<rparr>) = guarded st"
  "guarded (st\<lparr>toProxy := xs\<rparr>) = guarded st"
  "guarded (st\<lparr>toClient := xs\<rparr>) = guarded st"
  by (simp_all add: guarded_def guardEnds_def)

lemma guarded_countChunk [simp]: "guarded (countChunk c st) = guarded st"
  by (simp add: guarded_def guardEnds_def countChunk_def)

lemma guarded_reject:
  "guarded st \<Longrightarrow> guarded (rejectMissing env rt et st)"
  "guarded st \<Longrightarrow> guarded (rejectInvalid env tk rt et st)"
  "guarded st \<Longrightarrow> guarded (noEndpoint env auth rt et st)"
  "guarded st \<Longrightarrow> guarded (caught env err rt et st)"
  by (simp_all add: rejectMissing_def rejectInvalid_def noEndpoint_def caught_def guarded_finalize)

lemma guarded_routeStream: "guarded st \<Longrightarrow> guarded (snd (routeStream env auth rt et st))"
  by (simp add: routeStream_def Let_def guarded_reject split: option.splits)

lemma guarded_routeStream_pair:
  "guarded st \<Longrightarrow> routeStream env auth rt et st = (d, st') \<Longrightarrow> guarded st'"
  using guarded_routeStream [of st env auth rt et] by simp

lemma guarded_streamHandler:
  "guarded st \<Longrightarrow> guarded (fst (snd (streamHandler env hdrs rt et ast st)))"
  by (auto simp: streamHandler_def Let_def guarded_reject split: option.splits prod.splits
      dest: guarded_routeStream_pair [rotated])

lemma guarded_afterSession:
  "guarded st \<Longrightarrow> guarded (snd (snd (afterSession env auth target outcome rt et p st)))"
  by (simp add: afterSession_def Let_def guarded_finalize split: settle.splits prod.splits)

lemma guarded_afterRetry:
  "guarded st \<Longrightarrow> guarded (snd (afterRetry env auth target outcome rt et st))"
  by (simp add: afterRetry_def guarded_finalize split: settle.splits)

lemma guarded_startBridge:
  "guarded st \<Longrightarrow> guarded (startBridge env hdrs auth target sid qt rt et p st)"
  by (simp add: startBridge_def Let_def guarded_finalize guarded_reject split: option.splits)

lemma guarded_pipes [simp]:
  "guarded (pipeToProxy c st) = guarded st" "guarded (pipeToClient c st) = guarded st"
  "guarded (pipeEnd st) = guarded st"
  by (simp_all add: pipeToProxy_def pipeToClient_def pipeEnd_def guarded_def guardEnds_def)

lemma guarded_step: "guarded st \<Longrightarrow> guarded (step env hdrs auth target ev st)"
proof (cases ev)
  case (InboundData c)
  assume "guarded st"
  with InboundData show ?thesis by (simp add: step_def transform_def Let_def split: mode.splits)
next
  case InboundEnd
  assume "guarded st"
  with InboundEnd show ?thesis by (simp add: step_def flush_def)
next
  case InboundDestroyed
  assume "guarded st"
  with InboundDestroyed show ?thesis by (simp add: step_def)
next
  case InboundAborted
  assume "guarded st"
  with InboundAborted show ?thesis by (simp add: step_def onStreamAborted_def)
next
  case (InboundError e)
  assume "guarded st"
  with InboundError show ?thesis by (simp add: step_def onStreamError_def)
next
  case InboundClose
  assume "guarded st"
  with InboundClose show ?thesis by (simp add: step_def onStreamClose_def)
next
  case (ProxyResponse h t)
  assume "guarded st"
  with ProxyResponse show ?thesis by (simp add: step_def onProxyResponse_def guarded_safeRespond)
next
  case (ProxyData c)
  assume "guarded st"
  with ProxyData show ?thesis by (simp add: step_def onProxyData_def)
next
  case ProxyEnd
  assume "guarded st"
  with ProxyEnd show ?thesis by (simp add: step_def)
next
  case (ProxyError c rt et)
  assume "guarded st"
  with ProxyError show ?thesis by (simp add: step_def onProxyError_def guarded_finalize)
next
  case (ProxyClose et)
  assume "guarded st"
  with ProxyClose show ?thesis by (simp add: step_def onProxyClose_def guarded_safeEnd)
next
  case SessionError
  assume "guarded st"
  with SessionError show ?thesis by (simp add: step_def sessionErrorHandler_def)
qed

lemma guarded_perform: "guarded st \<Longrightarrow> guarded (perform env act st)"
  by (cases act)
     (simp_all add: perform_def guarded_streamHandler guarded_afterSession guarded_afterRetry
        guarded_startBridge guarded_step)

lemma guarded_run: "guarded st \<Longrightarrow> guarded (run env acts st)"
proof (induction acts arbitrary: st)
  case Nil
  then show ?case by (simp add: run_def)
next
  case (Cons act acts)
  from Cons.prems have "guarded (perform env act st)" by (rule guarded_perform)
  then have "guarded (run env acts (perform env act st))" by (rule Cons.IH)
  then show ?case by (simp add: run_def)
qed

lemma guarded_fresh: "guarded freshStream"
  by (simp add: guarded_def guardEnds_def freshStream_def)

text \<open>Only the pipe adds to the ends that the pipe makes.\<close>

lemma pipeEnds_addLog [simp]: "pipeEnds (addLog e st) = pipeEnds st"
  by (simp add: pipeEnds_def addLog_def)

lemma pipeEnds_safeRespond [simp]: "pipeEnds (safeRespond env hs t st) = pipeEnds st"
  by (simp add: pipeEnds_def safeRespond_def addLog_def)

lemma pipeEnds_safeEnd [simp]: "pipeEnds (safeEnd t st) = pipeEnds st"
  by (simp add: pipeEnds_def safeEnd_def)

lemma pipeEnds_finalize [simp]: "pipeEnds (finalize env n rt et st) = pipeEnds st"
  by (simp add: finalize_def)

lemma pipeEnds_frame [simp]:
  "pipeEnds (st\<lparr>authFailed := a\<rparr>) = pipeEnds st"
  "pipeEnds (st\<lparr>listening := m\<rparr>) = pipeEnds st"
  "pipeEnds (st\<lparr>s_teamId := t\<rparr>) = pipeEnds st"
  "pipeEnds (st\<lparr>requestHeaders := q\<rparr>) = pipeEnds st"
  "pipeEnds (st\<lparr>responseReceived := b\<rparr>) = pipeEnds st"
  "pipeEnds (st\<lparr>dataSentToProxy := b\<rparr>) = pipeEnds st"
  "pipeEnds (st\<lparr>dataReceivedFromProxy := b\<rparr>) = pipeEnds st"
  "pipeEnds (st\<lparr>proxyDestroyed := b\<rparr>) = pipeEnds st"
  "pipeEnds (st\<lparr>proxyClosed := b\<rparr>) = pipeEnds st"
  "pipeEnds (st\<lparr>destroyed := b\<rparr>) = pipeEnds st"
  "pipeEnds (st\<lparr>closed := b\<rparr>) = pipeEnds st"
  "pipeEnds (st\<lparr>toProxy := xs\<rparr>) = pipeEnds st"
  "pipeEnds (st\<lparr>toClient := xs\<rparr>) = pipeEnds st"
  by (simp_all add: pipeEnds_def)

lemma pipeEnds_countChunk [simp]: "pipeEnds (countChunk c st) = pipeEnds st"
  by (simp add: pipeEnds_def countChunk_def)

lemma pipeEnds_reject [simp]:
  "pipeEnds (rejectMissing env rt et st) = pipeEnds st"
  "pipeEnds (rejectInvalid env tk rt et st) = pipeEnds st"
  "pipeEnds (noEndpoint env auth rt et st) = pipeEnds st"
  "pipeEnds (caught env err rt et st) = pipeEnds st"
  by (simp_all add: rejectMissing_def rejectInvalid_def noEndpoint_def caught_def)

lemma pipeEnds_routeStream: "pipeEnds (snd (routeStream env auth rt et st)) = pipeEnds st"
  by (simp add: routeStream_def Let_def split: option.splits)

lemma pipeEnds_routeStream_pair:
  "routeStream env auth rt et st = (d, st') \<Longrightarrow> pipeEnds st' = pipeEnds st"
  using pipeEnds_routeStream [of env auth rt et st] by simp

lemma pipeEnds_streamHandler:
  "pipeEnds (fst (snd (streamHandler env hdrs rt et ast st))) = pipeEnds st"
  by (auto simp: streamHandler_def Let_def split: option.splits prod.splits
      dest: pipeEnds_routeStream_pair)

lemma pipeEnds_afterSession:
  "pipeEnds (snd (snd (afterSession env auth target outcome rt et p st))) = pipeEnds st"
  by (simp add: afterSession_def Let_def split: settle.splits prod.splits)

lemma pipeEnds_afterRetry:
  "pipeEnds (snd (afterRetry env auth target outcome rt et st)) = pipeEnds st"
  by (simp add: afterRetry_def split: settle.splits)

lemma pipeEnds_startBridge:
  "pipeEnds (startBridge env hdrs auth target sid qt rt et p st) = pipeEnds st"
  by (simp add: startBridge_def Let_def split: option.splits)

lemma pipeEnds_pipes [simp]:
  "pipeEnds (pipeToProxy c st) = pipeEnds st" "pipeEnds (pipeToClient c st) = pipeEnds st"
  "pipeEnds (pipeEnd st) = Suc (pipeEnds st)"
  by (simp_all add: pipeToProxy_def pipeToClient_def pipeEnd_def pipeEnds_def)

lemma pipeEnds_step:
  "pipeEnds (step env hdrs auth target ev st)
     = (if ev = ProxyEnd \<and> listening st = Bridging \<and> \<not> proxyDestroyed st \<and> \<not> closed st
        then Suc (pipeEnds st) else pipeEnds st)"
  by (cases ev)
     (simp_all add: step_def transform_def Let_def flush_def onStreamAborted_def onStreamError_def
        onStreamClose_def onProxyResponse_def onProxyData_def onProxyError_def onProxyClose_def
        sessionErrorHandler_def split: mode.splits)

lemma pipeEnds_perform:
  "pipeEnds (perform env act st) \<le> pipeEnds st + proxyEndEvents [act]"
proof (cases act)
  case (Event hdrs auth target ev)
  then show ?thesis by (cases ev) (simp_all add: perform_def pipeEnds_step)
qed (simp_all add: perform_def pipeEnds_streamHandler pipeEnds_afterSession pipeEnds_afterRetry
      pipeEnds_startBridge)

lemma proxyEndEvents_Cons: "proxyEndEvents (act # acts) = proxyEndEvents [act] + proxyEndEvents acts"
proof (cases act)
  case (Event hdrs auth target ev)
  then show ?thesis by (cases ev) simp_all
qed simp_all

lemma pipeEnds_run: "pipeEnds (run env acts st) \<le> pipeEnds st + proxyEndEvents acts"
proof (induction acts arbitrary: st)
  case Nil
  then show ?case by (simp add: run_def)
next
  case (Cons act acts)
  have "pipeEnds (run env acts (perform env act st)) \<le> pipeEnds (perform env act st) + proxyEndEvents acts"
    by (rule Cons.IH)
  also have "\<dots> \<le> pipeEnds st + proxyEndEvents [act] + proxyEndEvents acts"
    using pipeEnds_perform [of env act st] by simp
  finally show ?case using proxyEndEvents_Cons [of act acts] by (simp add: run_def)
qed

lemma enders_split:
  "length xs = length (filter (\<lambda>e. e = ByGuard) xs) + length (filter (\<lambda>e. e = ByPipe) xs)"
proof (induction xs)
  case Nil
  then show ?case by simp
next
  case (Cons x xs)
  then show ?case by (cases x) simp_all
qed

lemma ends_split: "length (ends st) = guardEnds st + pipeEnds st"
  unfolding guardEnds_def pipeEnds_def by (rule enders_split)

text \<open>Claim C6, as amended. Whatever the parts of the listener and the events that run on a
  stream, in whatever order and number, and whichever calls raise: \<^verbatim>\<open>stream.respond\<close>
  returns at most once, and \<^verbatim>\<open>stream.end\<close> returns at most once through \<^verbatim>\<open>safeEnd\<close>.
  The pipe from the outbound stream ends the inbound stream besides, at most once for
  each \<^verbatim>\<open>'end'\<close> of the outbound stream; every end of the stream is one of the two.\<close>

theorem guards_execute_at_most_once:
  "length (responses (run env acts freshStream)) \<le> 1
   \<and> guardEnds (run env acts freshStream) \<le> 1
   \<and> pipeEnds (run env acts freshStream) \<le> proxyEndEvents acts
   \<and> length (ends (run env acts freshStream))
       = guardEnds (run env acts freshStream) + pipeEnds (run env acts freshStream)"
proof -
  have "guarded (run env acts freshStream)" using guarded_fresh by (rule guarded_run)
  then have a: "length (responses (run env acts freshStream)) \<le> 1 \<and> guardEnds (run env acts freshStream) \<le> 1"
    by (simp add: guarded_def split: if_splits)
  have "pipeEnds freshStream = 0" by (simp add: pipeEnds_def freshStream_def)
  with pipeEnds_run [of env acts freshStream]
  have b: "pipeEnds (run env acts freshStream) \<le> proxyEndEvents acts" by simp
  from a b ends_split [of "run env acts freshStream"] show ?thesis by simp
qed

lemma stormyRun_result:
  "responses (run exampleEnv stormyRun freshStream) = [Status 502]"
  "ends (run exampleEnv stormyRun freshStream) = [ByGuard]"
  by code_simp+

lemma ordinaryRun_result:
  "responses (run exampleEnv ordinaryRun freshStream) = [Relayed [('':status'', Str ''200'')]]"
  "ends (run exampleEnv ordinaryRun freshStream) = [ByPipe, ByGuard]"
  "toProxy (run exampleEnv ordinaryRun freshStream) = [''payload'']"
  "toClient (run exampleEnv ordinaryRun freshStream) = [''ok'']"
  by code_simp+

text \<open>The amended claim C6 on a stream that is hit by two errors of the outbound stream, its
  close and an abort (one status, one end), and on a call that nothing disturbs (one
  status, one end by the pipe and one by \<^verbatim>\<open>safeEnd\<close>).\<close>

theorem guards_execute_at_most_once_witness:
  "responses (run exampleEnv stormyRun freshStream) = [Status 502]
   \<and> ends (run exampleEnv stormyRun freshStream) = [ByGuard]
   \<and> proxyEndEvents stormyRun = 0
   \<and> proxyEndEvents ordinaryRun = 1
   \<and> guardEnds (run exampleEnv ordinaryRun freshStream) = 1
   \<and> pipeEnds (run exampleEnv ordinaryRun freshStream) = 1
   \<and> length (responses (run exampleEnv ordinaryRun freshStream)) \<le> 1
   \<and> guardEnds (run exampleEnv ordinaryRun freshStream) \<le> 1
   \<and> pipeEnds (run exampleEnv ordinaryRun freshStream) \<le> proxyEndEvents ordinaryRun
   \<and> length (ends (run exampleEnv ordinaryRun freshStream))
       = guardEnds (run exampleEnv ordinaryRun freshStream) + pipeEnds (run exampleEnv ordinaryRun freshStream)"
  using guards_execute_at_most_once [of exampleEnv ordinaryRun]
  by (simp add: stormyRun_result ordinaryRun_result guardEnds_def pipeEnds_def)
     (simp add: stormyRun_def ordinaryRun_def)

text \<open>Claim C6 as stated fails: in a call that nothing disturbs, the inbound stream is ended
  twice. The pipe ends it when the outbound stream ends, and the \<^verbatim>\<open>'close'\<close> listener of the
  outbound stream ends it again through \<^verbatim>\<open>safeEnd\<close>, whose flag the pipe never set.\<close>

theorem undisturbed_call_ends_twice:
  "responses (run exampleEnv ordinaryRun freshStream) = [Relayed [('':status'', Str ''200'')]]
   \<and> ends (run exampleEnv ordinaryRun freshStream) = [ByPipe, ByGuard]
   \<and> length (ends (run exampleEnv ordinaryRun freshStream)) = 2"
  by (simp add: ordinaryRun_result)

lemma bridged_fields:
  "listening bridgedStream = Bridging" "toProxy bridgedStream = [''payload'']" "toClient bridgedStream = []"
  "requestHeaders bridgedStream
     = Some [('':method'', Str ''POST''), ('':path'', Str ''/v1/logs''), (''authorization'', Str ''Bearer abc''),
             ('':authority'', Str ''h1:9''), (''x-hdx-team-id'', Str ''t1'')]"
  "responses bridgedStream = []" "ends bridgedStream = []"
  "\<not> destroyed bridgedStream" "\<not> proxyDestroyed bridgedStream"
  by code_simp+

lemma abortWhenBridged_result:
  "proxyDestroyed (run exampleEnv (take 1 abortWhenBridged) bridgedStream)"
  "proxyDestroyed (run exampleEnv abortWhenBridged bridgedStream)"
  "destroyed (run exampleEnv abortWhenBridged bridgedStream)"
  by code_simp+

lemma abortWhileWaiting_result:
  "destroyed (run exampleEnv (take 3 abortWhileWaiting) freshStream)"
  "closed (run exampleEnv (take 3 abortWhileWaiting) freshStream)"
  "requestHeaders (run exampleEnv (take 3 abortWhileWaiting) freshStream) = None"
  "listening (run exampleEnv abortWhileWaiting freshStream) = Bridging"
  "requestHeaders (run exampleEnv abortWhileWaiting freshStream)
     = Some [('':method'', Str ''POST''), ('':path'', Str ''/v1/logs''), (''authorization'', Str ''Bearer abc''),
             ('':authority'', Str ''h1:9''), (''x-hdx-team-id'', Str ''t1'')]"
  "destroyed (run exampleEnv abortWhileWaiting freshStream)"
  "\<not> proxyDestroyed (run exampleEnv abortWhileWaiting freshStream)"
  "\<not> proxyClosed (run exampleEnv abortWhileWaiting freshStream)"
  by code_simp+

lemma destroyedUnanswered_result:
  "proxyDestroyed (run exampleEnv destroyedUnanswered bridgedStream)"
  "responses (run exampleEnv destroyedUnanswered bridgedStream) = []"
  "ends (run exampleEnv destroyedUnanswered bridgedStream) = [ByGuard]"
  "\<not> destroyed (run exampleEnv destroyedUnanswered bridgedStream)"
  "responses (run exampleEnv
      [Event exampleHeaders exampleRecord ''http://h1:9'' (ProxyError ''ECONNRESET'' False False)]
      bridgedStream) = [Status 502]"
  by code_simp+

text \<open>Claim C7 fails on the code. A client that aborts a bridged stream has the outbound stream
  destroyed. A client that aborts while the listener waits for the session has not: the
  \<^verbatim>\<open>'aborted'\<close> listener is put on the inbound stream only after the wait, the event is
  past by then, and the listener goes on to open the outbound stream for an inbound
  stream that is destroyed; nothing destroys that outbound stream. In the other
  direction, when the outbound stream is destroyed before the shard has answered, its
  \<^verbatim>\<open>'close'\<close> listener calls \<^verbatim>\<open>safeEnd\<close> and no status is ever sent for the inbound stream,
  where the \<^verbatim>\<open>'error'\<close> listener of the same stream sends 502 first.\<close>

theorem abort_before_bridging_is_not_propagated:
  "listening bridgedStream = Bridging
   \<and> proxyDestroyed (run exampleEnv (take 1 abortWhenBridged) bridgedStream)
   \<and> destroyed (run exampleEnv (take 3 abortWhileWaiting) freshStream)
   \<and> requestHeaders (run exampleEnv (take 3 abortWhileWaiting) freshStream) = None
   \<and> listening (run exampleEnv abortWhileWaiting freshStream) = Bridging
   \<and> requestHeaders (run exampleEnv abortWhileWaiting freshStream)
       = Some [('':method'', Str ''POST''), ('':path'', Str ''/v1/logs''), (''authorization'', Str ''Bearer abc''),
               ('':authority'', Str ''h1:9''), (''x-hdx-team-id'', Str ''t1'')]
   \<and> destroyed (run exampleEnv abortWhileWaiting freshStream)
   \<and> \<not> proxyDestroyed (run exampleEnv abortWhileWaiting freshStream)
   \<and> \<not> proxyClosed (run exampleEnv abortWhileWaiting freshStream)
   \<and> proxyDestroyed (run exampleEnv destroyedUnanswered bridgedStream)
   \<and> \<not> destroyed (run exampleEnv destroyedUnanswered bridgedStream)
   \<and> responses (run exampleEnv destroyedUnanswered bridgedStream) = []
   \<and> ends (run exampleEnv destroyedUnanswered bridgedStream) = [ByGuard]
   \<and> responses (run exampleEnv
        [Event exampleHeaders exampleRecord ''http://h1:9'' (ProxyError ''ECONNRESET'' False False)]
        bridgedStream) = [Status 502]"
  by (intro conjI)
     (fact bridged_fields abortWhenBridged_result abortWhileWaiting_result destroyedUnanswered_result)+

lemma clearTimeout_conn:
  "sid < length (conns p) \<Longrightarrow>
   conns (clearTimeout sid p) ! sid = (conns p ! sid)\<lparr>timeoutArmed := False\<rparr>"
  by (simp add: clearTimeout_def)

lemma clearTimeout_frame [simp]:
  "plog (clearTimeout sid p) = plog p" "sessions (clearTimeout sid p) = sessions p"
  "sessionPingIntervals (clearTimeout sid p) = sessionPingIntervals p"
  "activeIntervals (clearTimeout sid p) = activeIntervals p"
  "length (conns (clearTimeout sid p)) = length (conns p)"
  by (simp_all add: clearTimeout_def)

lemma dropSession_frame [simp]:
  "plog (dropSession url p) = plog p" "conns (dropSession url p) = conns p"
  "sessions (dropSession url p) = (sessions p)(url := None)"
  "sessionPingIntervals (dropSession url p) url = None"
  by (simp_all add: dropSession_def clearPing_def split: option.splits)

lemma settlePromise_frame [simp]:
  "plog (settlePromise sid v p) = plog p" "sessions (settlePromise sid v p) = sessions p"
  "sessionPingIntervals (settlePromise sid v p) = sessionPingIntervals p"
  by (simp_all add: settlePromise_def)

lemma settlePromise_pending:
  "sid < length (conns p) \<Longrightarrow> promise (conns p ! sid) = None \<Longrightarrow>
   promise (conns (settlePromise sid v p) ! sid) = Some v"
  by (simp add: settlePromise_def)

lemma onSessionError_established:
  "sid < length (conns p) \<Longrightarrow> \<not> s_connecting (conns p ! sid) \<Longrightarrow>
   onSessionError ''ECONNRESET'' sid p = dropSession (c_url (conns p ! sid)) (clearTimeout sid p)"
  by (simp add: onSessionError_def Let_def clearTimeout_conn)

lemma onSessionError_established_other:
  "sid < length (conns p) \<Longrightarrow> \<not> s_connecting (conns p ! sid) \<Longrightarrow> code \<noteq> ''ECONNRESET'' \<Longrightarrow>
   plog (onSessionError code sid p) = plog p @
     [(LError, [(''err'', V (AErr code)), (''targetBaseUrl'', V (AStr (c_url (conns p ! sid))))],
       ''OTLP gRPC gateway: HTTP/2 session error'')]"
  by (simp add: onSessionError_def Let_def clearTimeout_conn)

lemma onSessionError_connecting:
  assumes "sid < length (conns p)" and "s_connecting (conns p ! sid)" and "promise (conns p ! sid) = None"
  shows "plog (onSessionError code sid p) = plog p @
     [(LError, [(''err'', V (AErr code)), (''targetBaseUrl'', V (AStr (c_url (conns p ! sid))))],
       ''OTLP gRPC gateway: HTTP/2 connection failed'')]"
    and "promise (conns (onSessionError code sid p) ! sid) = Some (Rejected code)"
    and "sessions (onSessionError code sid p) = (sessions p)(c_url (conns p ! sid) := None)"
proof -
  let ?p = "clearTimeout sid p"
  let ?q = "dropSession (c_url (conns p ! sid))
             (?p\<lparr>plog := plog ?p @
                 [(LError, [(''err'', V (AErr code)), (''targetBaseUrl'', V (AStr (c_url (conns p ! sid))))],
                   ''OTLP gRPC gateway: HTTP/2 connection failed'')]\<rparr>)"
  from assms have e: "onSessionError code sid p = settlePromise sid (Rejected code) ?q"
    by (simp add: onSessionError_def Let_def clearTimeout_conn)
  show "plog (onSessionError code sid p) = plog p @
     [(LError, [(''err'', V (AErr code)), (''targetBaseUrl'', V (AStr (c_url (conns p ! sid))))],
       ''OTLP gRPC gateway: HTTP/2 connection failed'')]"
    by (simp add: e)
  show "sessions (onSessionError code sid p) = (sessions p)(c_url (conns p ! sid) := None)"
    by (simp add: e)
  from assms have "sid < length (conns ?q)" "promise (conns ?q ! sid) = None"
    by (simp_all add: clearTimeout_conn)
  then show "promise (conns (onSessionError code sid p) ! sid) = Some (Rejected code)"
    by (simp only: e settlePromise_pending)
qed

lemma afterSession_rejected:
  "fst (afterSession env auth target (Rejected err) rt et p st) = Failed
   \<and> fst (snd (afterSession env auth target (Rejected err) rt et p st)) = p
   \<and> responses (snd (snd (afterSession env auth target (Rejected err) rt et p st))) =
       responses st @ (if \<not> streamResponded st \<and> \<not> destroyed st \<and> \<not> closed st \<and> \<not> rt
                       then [Status 503] else [])"
  by (simp add: afterSession_def finalize_def safeRespond_responses safeEnd_def addLog_def)

text \<open>Claim C8. A connection reset on a session that is no longer connecting writes no log
  entry and rejects nothing: it clears the timer and drops the session and its ping
  interval from the pool. A reset on a session that is still connecting is logged as an
  error and rejects the pending promise; the listener that awaits it stops with 503
  (sent when the stream is still open, has no response yet and \<^verbatim>\<open>stream.respond\<close> does
  not raise).\<close>

theorem session_reset_classification:
  "(sid < length (conns p) \<and> \<not> s_connecting (conns p ! sid)
      \<longrightarrow> onSessionError ''ECONNRESET'' sid p = dropSession (c_url (conns p ! sid)) (clearTimeout sid p)
          \<and> plog (onSessionError ''ECONNRESET'' sid p) = plog p
          \<and> sessions (onSessionError ''ECONNRESET'' sid p) = (sessions p)(c_url (conns p ! sid) := None)
          \<and> sessionPingIntervals (onSessionError ''ECONNRESET'' sid p) (c_url (conns p ! sid)) = None
          \<and> promise (conns (onSessionError ''ECONNRESET'' sid p) ! sid) = promise (conns p ! sid))
   \<and> (sid < length (conns p) \<and> s_connecting (conns p ! sid) \<and> promise (conns p ! sid) = None
      \<longrightarrow> plog (onSessionError ''ECONNRESET'' sid p) = plog p @
            [(LError, [(''err'', V (AErr ''ECONNRESET'')), (''targetBaseUrl'', V (AStr (c_url (conns p ! sid))))],
              ''OTLP gRPC gateway: HTTP/2 connection failed'')]
          \<and> sessions (onSessionError ''ECONNRESET'' sid p) = (sessions p)(c_url (conns p ! sid) := None)
          \<and> promise (conns (onSessionError ''ECONNRESET'' sid p) ! sid) = Some (Rejected ''ECONNRESET'')
          \<and> fst (afterSession env auth target (Rejected ''ECONNRESET'') respondThrows endThrows
                   (onSessionError ''ECONNRESET'' sid p) st) = Failed
          \<and> responses (snd (snd (afterSession env auth target (Rejected ''ECONNRESET'') respondThrows endThrows
                   (onSessionError ''ECONNRESET'' sid p) st))) =
              responses st @
              (if \<not> streamResponded st \<and> \<not> destroyed st \<and> \<not> closed st \<and> \<not> respondThrows
               then [Status 503] else []))"
proof (intro conjI impI)
  assume h: "sid < length (conns p) \<and> \<not> s_connecting (conns p ! sid)"
  then show e: "onSessionError ''ECONNRESET'' sid p = dropSession (c_url (conns p ! sid)) (clearTimeout sid p)"
    by (simp add: onSessionError_established)
  show "plog (onSessionError ''ECONNRESET'' sid p) = plog p" by (simp add: e)
  show "sessions (onSessionError ''ECONNRESET'' sid p) = (sessions p)(c_url (conns p ! sid) := None)"
    by (simp add: e)
  show "sessionPingIntervals (onSessionError ''ECONNRESET'' sid p) (c_url (conns p ! sid)) = None"
    by (simp add: e)
  from h show "promise (conns (onSessionError ''ECONNRESET'' sid p) ! sid) = promise (conns p ! sid)"
    by (simp add: e clearTimeout_conn)
next
  assume h: "sid < length (conns p) \<and> s_connecting (conns p ! sid) \<and> promise (conns p ! sid) = None"
  then have a: "sid < length (conns p)" and b: "s_connecting (conns p ! sid)"
    and c: "promise (conns p ! sid) = None" by simp_all
  show "plog (onSessionError ''ECONNRESET'' sid p) = plog p @
            [(LError, [(''err'', V (AErr ''ECONNRESET'')), (''targetBaseUrl'', V (AStr (c_url (conns p ! sid))))],
              ''OTLP gRPC gateway: HTTP/2 connection failed'')]"
    by (rule onSessionError_connecting(1) [OF a b c])
  show "sessions (onSessionError ''ECONNRESET'' sid p) = (sessions p)(c_url (conns p ! sid) := None)"
    by (rule onSessionError_connecting(3) [OF a b c])
  show "promise (conns (onSessionError ''ECONNRESET'' sid p) ! sid) = Some (Rejected ''ECONNRESET'')"
    by (rule onSessionError_connecting(2) [OF a b c])
  show "fst (afterSession env auth target (Rejected ''ECONNRESET'') respondThrows endThrows
                   (onSessionError ''ECONNRESET'' sid p) st) = Failed"
    by (simp add: afterSession_rejected)
  show "responses (snd (snd (afterSession env auth target (Rejected ''ECONNRESET'') respondThrows endThrows
                   (onSessionError ''ECONNRESET'' sid p) st))) =
              responses st @
              (if \<not> streamResponded st \<and> \<not> destroyed st \<and> \<not> closed st \<and> \<not> respondThrows
               then [Status 503] else [])"
    using afterSession_rejected [of env auth target "''ECONNRESET''" respondThrows endThrows
        "onSessionError ''ECONNRESET'' sid p" st] by blast
qed

lemma livePool_facts:
  "0 < length (conns livePool)" "\<not> s_connecting (conns livePool ! 0)" "plog livePool = []"
  "c_url (conns livePool ! 0) = ''http://h1:9''"
  by (simp_all add: livePool_def)

lemma dialingPool_facts:
  "0 < length (conns dialingPool)" "s_connecting (conns dialingPool ! 0)"
  "promise (conns dialingPool ! 0) = None" "plog dialingPool = []"
  by (simp_all add: dialingPool_def getClientSession_def connectNew_def emptyPool_def)

text \<open>Claim C8 on a pool with a live session and on a pool with a session being made.\<close>

theorem session_reset_classification_witness:
  "plog (onSessionError ''ECONNRESET'' 0 livePool) = []
   \<and> sessions (onSessionError ''ECONNRESET'' 0 livePool) ''http://h1:9'' = None
   \<and> promise (conns (onSessionError ''ECONNRESET'' 0 dialingPool) ! 0) = Some (Rejected ''ECONNRESET'')
   \<and> length (plog (onSessionError ''ECONNRESET'' 0 dialingPool)) = 1
   \<and> responses (snd (snd (afterSession exampleEnv exampleRecord ''http://h1:9'' (Rejected ''ECONNRESET'')
         False False (onSessionError ''ECONNRESET'' 0 dialingPool) freshStream))) = [Status 503]"
proof -
  note t1 = session_reset_classification [of 0 livePool exampleEnv exampleRecord "''http://h1:9''" False False freshStream]
  note t2 = session_reset_classification [of 0 dialingPool exampleEnv exampleRecord "''http://h1:9''" False False freshStream]
  have h1: "0 < length (conns livePool) \<and> \<not> s_connecting (conns livePool ! 0)"
    using livePool_facts by simp
  have h2: "0 < length (conns dialingPool) \<and> s_connecting (conns dialingPool ! 0)
      \<and> promise (conns dialingPool ! 0) = None"
    using dialingPool_facts by simp
  from t1 h1 have a: "plog (onSessionError ''ECONNRESET'' 0 livePool) = plog livePool
      \<and> sessions (onSessionError ''ECONNRESET'' 0 livePool) = (sessions livePool)(c_url (conns livePool ! 0) := None)"
    by blast
  from t2 h2 have b: "plog (onSessionError ''ECONNRESET'' 0 dialingPool) = plog dialingPool @
            [(LError, [(''err'', V (AErr ''ECONNRESET'')), (''targetBaseUrl'', V (AStr (c_url (conns dialingPool ! 0))))],
              ''OTLP gRPC gateway: HTTP/2 connection failed'')]
      \<and> promise (conns (onSessionError ''ECONNRESET'' 0 dialingPool) ! 0) = Some (Rejected ''ECONNRESET'')
      \<and> responses (snd (snd (afterSession exampleEnv exampleRecord ''http://h1:9'' (Rejected ''ECONNRESET'') False False
                   (onSessionError ''ECONNRESET'' 0 dialingPool) freshStream))) =
              responses freshStream @
              (if \<not> streamResponded freshStream \<and> \<not> destroyed freshStream \<and> \<not> closed freshStream \<and> \<not> False
               then [Status 503] else [])"
    by blast
  from a b show ?thesis by (simp add: livePool_facts dialingPool_facts freshStream_def)
qed

lemma connectNew_unregistered:
  "sessions (snd (connectNew url p)) = sessions p \<and> conns (snd (connectNew url p)) = conns p @
     [\<lparr>c_url = url, s_connecting = True, s_closed = False, s_destroyed = False,
       timeoutArmed = True, promise = None\<rparr>]
   \<and> fst (connectNew url p) = Connecting (length (conns p))"
  by (simp add: connectNew_def)

lemma getClientSession_unseen:
  "sessions p url = None \<Longrightarrow> getClientSession url p = connectNew url p"
  by (simp add: getClientSession_def)

lemma acquireMany_unseen:
  "sessions p url = None \<Longrightarrow>
   length (conns (snd (acquireMany n url p))) = length (conns p) + n
   \<and> sessions (snd (acquireMany n url p)) url = None"
proof (induction n arbitrary: p)
  case 0
  then show ?case by simp
next
  case (Suc n)
  let ?p = "snd (connectNew url p)"
  from Suc.prems have g: "getClientSession url p = (Connecting (length (conns p)), ?p)"
    by (simp add: getClientSession_unseen connectNew_def)
  from Suc.prems have "sessions ?p url = None" by (simp add: connectNew_def)
  then have ih: "length (conns (snd (acquireMany n url ?p))) = length (conns ?p) + n
   \<and> sessions (snd (acquireMany n url ?p)) url = None" by (rule Suc.IH)
  have l: "length (conns ?p) = Suc (length (conns p))" by (simp add: connectNew_def)
  from g ih l show ?case by (auto split: prod.splits)
qed

text \<open>Claim C2 fails on the code. Three calls of \<^verbatim>\<open>getClientSession\<close> for an endpoint not
  seen before, with no event between them, make three sessions, each call waiting on
  its own; the pool has no entry for the endpoint until a session has connected. Once
  the three have connected, each call is resolved with its own session, all three are
  open with their ping intervals running, and the pool holds the last.\<close>

theorem concurrent_acquires_each_connect:
  "fst threeDials = [Connecting 0, Connecting 1, Connecting 2]
   \<and> length (conns (snd threeDials)) = 3
   \<and> sessions (snd threeDials) ''http://h0:9'' = None
   \<and> map promise (conns threeUp) = [Some (Resolved 0), Some (Resolved 1), Some (Resolved 2)]
   \<and> map s_closed (conns threeUp) = [False, False, False]
   \<and> sessions threeUp ''http://h0:9'' = Some 2
   \<and> activeIntervals threeUp = {0, 1, 2}"
  by (auto simp: threeUp_def threeDials_def numeral_3_eq_3 numeral_2_eq_2 getClientSession_def
      connectNew_def emptyPool_def emitConnect_def onConnect_def clearTimeout_def settlePromise_def Let_def)

end
